theory Spec2Isabelle
  imports Complex_Main "HOL-Library.AList"
begin

section \<open>Python values, exceptions and the built-ins the program relies on\<close>

text \<open>
  The program is dynamically typed: every fetcher reshapes whatever \<^verbatim>\<open>resp.json()\<close>
  returned. A decoded JSON document is therefore a value of the datatype \<open>pyval\<close>, and
  every attribute access, subscript or arithmetic operation that Python would refuse is a
  branch returning an exception.

  Floating point numbers are not interpreted: the type of floats is the parameter \<open>'f\<close>,
  and the float operations the program uses (true division, \<^verbatim>\<open>round\<close>, the test against
  zero, \<^verbatim>\<open>str\<close>) are the fields of a record \<open>pyops\<close> handed to every function. Theorems
  stated for an arbitrary \<open>ops\<close> hold for IEEE doubles as for any other reading of floats.
  A Python dict is an association list in insertion order, looked up with \<open>map_of\<close>.
  A source name with a leading underscore (\<^verbatim>\<open>_get\<close>) is written with the prefix \<open>u_\<close>.
  Calls of \<^verbatim>\<open>print\<close> are left out: they change no control flow.
\<close>

datatype 'f pyval =
    JNull
  | JBool bool
  | JInt int
  | JFloat 'f
  | JStr string
  | JArr "'f pyval list"
  | JObj "(string \<times> 'f pyval) list"

type_synonym 'f dict = "(string \<times> 'f pyval) list"

text \<open>Subclasses of \<^verbatim>\<open>Exception\<close>, the ones a \<^verbatim>\<open>try ... except Exception\<close> catches.\<close>

datatype exc =
    AttributeError
  | TypeError
  | KeyError
  | IndexError
  | ValueError
  | OverflowError
  | HTTPError nat
  | ConnectionError
  | JSONDecodeError
  | APIError
  | WorksheetNotFound
  | RuntimeError

text \<open>What can end a command: an exception, or \<^verbatim>\<open>SystemExit\<close>, which is no \<^verbatim>\<open>Exception\<close>.\<close>

datatype error = Exception exc | SystemExit int

record 'f pyops =
  int_truediv :: "int \<Rightarrow> int \<Rightarrow> 'f option"
  flt_truediv :: "'f \<Rightarrow> int \<Rightarrow> 'f"
  flt_round :: "'f \<Rightarrow> nat \<Rightarrow> 'f"
  flt_is_zero :: "'f \<Rightarrow> bool"
  flt_str :: "'f \<Rightarrow> string"
  str_repr :: "string \<Rightarrow> string"

definition bindE :: "'e + 'a \<Rightarrow> ('a \<Rightarrow> 'e + 'b) \<Rightarrow> 'e + 'b" where
  "bindE m f = (case m of Inl e \<Rightarrow> Inl e | Inr v \<Rightarrow> f v)"

definition dict_get :: "'f dict \<Rightarrow> string \<Rightarrow> 'f pyval \<Rightarrow> 'f pyval" where
  "dict_get kvs k dflt = (case map_of kvs k of None \<Rightarrow> dflt | Some v \<Rightarrow> v)"

text \<open>\<^verbatim>\<open>x.get(k, default)\<close>: only a dict has the method.\<close>

fun py_get :: "'f pyval \<Rightarrow> string \<Rightarrow> 'f pyval \<Rightarrow> exc + 'f pyval" where
  "py_get (JObj kvs) k dflt = Inr (dict_get kvs k dflt)"
| "py_get _ k dflt = Inl AttributeError"

text \<open>Truth value of an object, as \<^verbatim>\<open>if x\<close> and \<^verbatim>\<open>not x\<close> take it.\<close>

fun truthy :: "'f pyops \<Rightarrow> 'f pyval \<Rightarrow> bool" where
  "truthy ops JNull = False"
| "truthy ops (JBool b) = b"
| "truthy ops (JInt i) = (i \<noteq> 0)"
| "truthy ops (JFloat x) = (\<not> flt_is_zero ops x)"
| "truthy ops (JStr s) = (s \<noteq> [])"
| "truthy ops (JArr xs) = (xs \<noteq> [])"
| "truthy ops (JObj kvs) = (kvs \<noteq> [])"

text \<open>
  \<^verbatim>\<open>x[0]\<close>. A dict decoded from JSON has string keys only, so the key \<open>0\<close> is missing.
\<close>

fun py_index0 :: "'f pyval \<Rightarrow> exc + 'f pyval" where
  "py_index0 (JArr []) = Inl IndexError"
| "py_index0 (JArr (x # xs)) = Inr x"
| "py_index0 (JStr []) = Inl IndexError"
| "py_index0 (JStr (c # cs)) = Inr (JStr [c])"
| "py_index0 (JObj kvs) = Inl KeyError"
| "py_index0 _ = Inl TypeError"

text \<open>
  \<^verbatim>\<open>x[:n]\<close>: a sequence is cut, anything else cannot be sliced. (For a dict the
  exception is \<^verbatim>\<open>TypeError\<close> up to Python 3.11 and \<^verbatim>\<open>KeyError\<close> since; no property below
  depends on which.)
\<close>

fun py_slice_to :: "nat \<Rightarrow> 'f pyval \<Rightarrow> exc + 'f pyval" where
  "py_slice_to n (JStr s) = Inr (JStr (take n s))"
| "py_slice_to n (JArr xs) = Inr (JArr (take n xs))"
| "py_slice_to n _ = Inl TypeError"

text \<open>The items a \<^verbatim>\<open>for\<close> loop visits: a dict yields its keys, a string its characters.\<close>

fun py_iter :: "'f pyval \<Rightarrow> exc + 'f pyval list" where
  "py_iter (JArr xs) = Inr xs"
| "py_iter (JObj kvs) = Inr (map (\<lambda>kv. JStr (fst kv)) kvs)"
| "py_iter (JStr s) = Inr (map (\<lambda>c. JStr [c]) s)"
| "py_iter _ = Inl TypeError"

text \<open>\<^verbatim>\<open>round(x, n)\<close> with \<open>n \<ge> 0\<close>: an int (or bool) comes back as the int it is.\<close>

fun py_round :: "'f pyops \<Rightarrow> 'f pyval \<Rightarrow> nat \<Rightarrow> exc + 'f pyval" where
  "py_round ops (JInt i) n = Inr (JInt i)"
| "py_round ops (JBool b) n = Inr (JInt (if b then 1 else 0))"
| "py_round ops (JFloat x) n = Inr (JFloat (flt_round ops x n))"
| "py_round ops _ n = Inl TypeError"

text \<open>\<^verbatim>\<open>x / k\<close> for a non-zero int literal \<open>k\<close>; int by int may overflow the float range.\<close>

definition int_div :: "'f pyops \<Rightarrow> int \<Rightarrow> int \<Rightarrow> exc + 'f pyval" where
  "int_div ops i k =
     (case int_truediv ops i k of None \<Rightarrow> Inl OverflowError | Some q \<Rightarrow> Inr (JFloat q))"

fun py_truediv :: "'f pyops \<Rightarrow> 'f pyval \<Rightarrow> int \<Rightarrow> exc + 'f pyval" where
  "py_truediv ops (JInt i) k = int_div ops i k"
| "py_truediv ops (JBool b) k = int_div ops (if b then 1 else 0) k"
| "py_truediv ops (JFloat x) k = Inr (JFloat (flt_truediv ops x k))"
| "py_truediv ops _ k = Inl TypeError"

fun is_list :: "'f pyval \<Rightarrow> bool" where
  "is_list (JArr xs) = True"
| "is_list _ = False"

fun is_dict :: "'f pyval \<Rightarrow> bool" where
  "is_dict (JObj kvs) = True"
| "is_dict _ = False"

subsection \<open>Rendering: \<^verbatim>\<open>str\<close>, f-strings and \<^verbatim>\<open>join\<close>\<close>

definition digit_char :: "nat \<Rightarrow> char" where
  "digit_char n = char_of (48 + n)"

fun nat_str :: "nat \<Rightarrow> string" where
  "nat_str n = (if n < 10 then [digit_char n] else nat_str (n div 10) @ [digit_char (n mod 10)])"

declare nat_str.simps [simp del]

definition int_str :: "int \<Rightarrow> string" where
  "int_str i = (if i < 0 then CHR ''-'' # nat_str (nat (- i)) else nat_str (nat i))"

fun join :: "string \<Rightarrow> string list \<Rightarrow> string" where
  "join sep [] = []"
| "join sep [x] = x"
| "join sep (x # y # ys) = x @ sep @ join sep (y # ys)"

fun py_repr :: "'f pyops \<Rightarrow> 'f pyval \<Rightarrow> string" where
  "py_repr ops JNull = ''None''"
| "py_repr ops (JBool b) = (if b then ''True'' else ''False'')"
| "py_repr ops (JInt i) = int_str i"
| "py_repr ops (JFloat x) = flt_str ops x"
| "py_repr ops (JStr s) = str_repr ops s"
| "py_repr ops (JArr xs) = ''['' @ join '', '' (map (py_repr ops) xs) @ '']''"
| "py_repr ops (JObj kvs) =
     ''{'' @ join '', '' (map (\<lambda>kv. str_repr ops (fst kv) @ '': '' @ py_repr ops (snd kv)) kvs) @ ''}''"

text \<open>\<^verbatim>\<open>str(x)\<close>, which is what \<^verbatim>\<open>f"{x}"\<close> renders.\<close>

fun py_str :: "'f pyops \<Rightarrow> 'f pyval \<Rightarrow> string" where
  "py_str ops (JStr s) = s"
| "py_str ops v = py_repr ops v"

subsection \<open>Dates\<close>

record date =
  year :: nat
  month :: nat
  day :: nat

definition zfill :: "nat \<Rightarrow> string \<Rightarrow> string" where
  "zfill w s = replicate (w - length s) CHR ''0'' @ s"

text \<open>\<^verbatim>\<open>str(d)\<close> of a \<^verbatim>\<open>datetime.date\<close>: \<^verbatim>\<open>YYYY-MM-DD\<close>.\<close>

definition date_str :: "date \<Rightarrow> string" where
  "date_str d =
     zfill 4 (nat_str (year d)) @ ''-'' @ zfill 2 (nat_str (month d)) @ ''-'' @ zfill 2 (nat_str (day d))"

section \<open>The Fitbit client (\<^verbatim>\<open>fitbit_client.py\<close>)\<close>

text \<open>
  A session answers a GET on a URL with a response or raises (a network error). A response
  has a status and a body that decodes to JSON or does not.
\<close>

record 'f response =
  status_code :: nat
  json :: "exc + 'f pyval"

type_synonym 'f session = "string \<Rightarrow> exc + 'f response"

definition BASE :: string where
  "BASE = ''https://api.fitbit.com''"

text \<open>\<^verbatim>\<open>resp.raise_for_status()\<close> raises for the 4xx and 5xx statuses.\<close>

definition raise_for_status :: "'f response \<Rightarrow> exc + unit" where
  "raise_for_status resp =
     (if 400 \<le> status_code resp \<and> status_code resp < 600 then Inl (HTTPError (status_code resp))
      else Inr ())"

definition u_get :: "'f session \<Rightarrow> string \<Rightarrow> exc + 'f pyval" where
  "u_get session path =
     bindE (session (BASE @ path)) (\<lambda>resp.
     bindE (raise_for_status resp) (\<lambda>_.
     json resp))"

subsection \<open>Individual metric fetchers\<close>

text \<open>The loop of \<^verbatim>\<open>_total_distance\<close> over the entries of the distances list.\<close>

fun total_distance_loop :: "'f pyops \<Rightarrow> 'f pyval list \<Rightarrow> exc + 'f pyval" where
  "total_distance_loop ops [] = Inr (JInt 0)"
| "total_distance_loop ops (d # ds) =
     bindE (py_get d ''activity'' JNull) (\<lambda>a.
     if a = JStr ''total'' then
       bindE (py_get d ''distance'' (JInt 0)) (\<lambda>x. py_round ops x 2)
     else total_distance_loop ops ds)"

definition u_total_distance :: "'f pyops \<Rightarrow> 'f pyval \<Rightarrow> exc + 'f pyval" where
  "u_total_distance ops summary =
     bindE (py_get summary ''distances'' (JArr [])) (\<lambda>distances.
     bindE (py_iter distances) (\<lambda>ds.
     total_distance_loop ops ds))"

definition path_activity :: "date \<Rightarrow> string" where
  "path_activity d = ''/1/user/-/activities/date/'' @ date_str d @ ''.json''"

definition get_activity_summary :: "'f pyops \<Rightarrow> 'f session \<Rightarrow> date \<Rightarrow> exc + 'f dict" where
  "get_activity_summary ops session d =
     bindE (u_get session (path_activity d)) (\<lambda>data.
     bindE (py_get data ''summary'' (JObj [])) (\<lambda>s.
     bindE (py_get s ''steps'' (JInt 0)) (\<lambda>steps.
     bindE (u_total_distance ops s) (\<lambda>distance_km.
     bindE (py_get s ''floors'' (JInt 0)) (\<lambda>floors.
     bindE (py_get s ''caloriesOut'' (JInt 0)) (\<lambda>calories_total.
     bindE (py_get s ''activityCalories'' (JInt 0)) (\<lambda>calories_activity.
     Inr [(''steps'', steps),
          (''distance_km'', distance_km),
          (''floors'', floors),
          (''calories_total'', calories_total),
          (''calories_activity'', calories_activity)])))))))"

definition path_azm :: "date \<Rightarrow> string" where
  "path_azm d = ''/1/user/-/activities/active-zone-minutes/date/'' @ date_str d @ ''/1d.json''"

definition get_azm :: "'f pyops \<Rightarrow> 'f session \<Rightarrow> date \<Rightarrow> exc + 'f dict" where
  "get_azm ops session d =
     bindE (u_get session (path_azm d)) (\<lambda>data.
     bindE (py_get data ''activities-active-zone-minutes'' (JArr [])) (\<lambda>minutes.
     if \<not> truthy ops minutes then
       Inr [(''azm_fat_burn'', JInt 0), (''azm_cardio'', JInt 0),
            (''azm_peak'', JInt 0), (''azm_total'', JInt 0)]
     else
       bindE (py_index0 minutes) (\<lambda>m0.
       bindE (py_get m0 ''value'' (JObj [])) (\<lambda>val.
       bindE (py_get val ''fatBurnActiveZoneMinutes'' (JInt 0)) (\<lambda>fat_burn.
       bindE (py_get val ''cardioActiveZoneMinutes'' (JInt 0)) (\<lambda>cardio.
       bindE (py_get val ''peakActiveZoneMinutes'' (JInt 0)) (\<lambda>peak.
       bindE (py_get val ''activeZoneMinutes'' (JInt 0)) (\<lambda>total.
       Inr [(''azm_fat_burn'', fat_burn), (''azm_cardio'', cardio),
            (''azm_peak'', peak), (''azm_total'', total)]))))))))"

text \<open>
  The first loop of \<^verbatim>\<open>get_sleep\<close>: the first entry whose \<^verbatim>\<open>isMainSleep\<close> is true, or
  \<^verbatim>\<open>None\<close>. The loop stops there, so the entries behind it are not looked at.
\<close>

fun find_main :: "'f pyops \<Rightarrow> 'f pyval list \<Rightarrow> exc + 'f pyval option" where
  "find_main ops [] = Inr None"
| "find_main ops (s # ss) =
     bindE (py_get s ''isMainSleep'' JNull) (\<lambda>flag.
     if truthy ops flag then Inr (Some s) else find_main ops ss)"

text \<open>\<^verbatim>\<open>summary.get(stage, {}).get("minutes", 0)\<close>\<close>

definition stage_minutes :: "'f pyval \<Rightarrow> string \<Rightarrow> exc + 'f pyval" where
  "stage_minutes summary stage =
     bindE (py_get summary stage (JObj [])) (\<lambda>st. py_get st ''minutes'' (JInt 0))"

definition sleep_defaults :: "'f dict" where
  "sleep_defaults =
     [(''sleep_start'', JStr []), (''sleep_end'', JStr []),
      (''sleep_duration_hrs'', JInt 0), (''sleep_efficiency'', JInt 0),
      (''sleep_deep_min'', JInt 0), (''sleep_light_min'', JInt 0),
      (''sleep_rem_min'', JInt 0), (''sleep_wake_min'', JInt 0)]"

text \<open>The part of \<^verbatim>\<open>get_sleep\<close> that reshapes the chosen entry \<open>main\<close>.\<close>

definition sleep_row :: "'f pyops \<Rightarrow> 'f pyval \<Rightarrow> exc + 'f dict" where
  "sleep_row ops main =
     bindE (py_get main ''levels'' (JObj [])) (\<lambda>levels.
     bindE (py_get levels ''summary'' (JObj [])) (\<lambda>summary.
     bindE (py_get main ''duration'' (JInt 0)) (\<lambda>duration_ms.
     bindE (py_get main ''startTime'' (JStr [])) (\<lambda>sleep_start.
     bindE (py_get main ''endTime'' (JStr [])) (\<lambda>sleep_end.
     bindE (py_truediv ops duration_ms 3600000) (\<lambda>q.
     bindE (py_round ops q 2) (\<lambda>sleep_duration_hrs.
     bindE (py_get main ''efficiency'' (JInt 0)) (\<lambda>sleep_efficiency.
     bindE (stage_minutes summary ''deep'') (\<lambda>deep.
     bindE (stage_minutes summary ''light'') (\<lambda>light.
     bindE (stage_minutes summary ''rem'') (\<lambda>rem.
     bindE (stage_minutes summary ''wake'') (\<lambda>wake.
     Inr [(''sleep_start'', sleep_start), (''sleep_end'', sleep_end),
          (''sleep_duration_hrs'', sleep_duration_hrs), (''sleep_efficiency'', sleep_efficiency),
          (''sleep_deep_min'', deep), (''sleep_light_min'', light),
          (''sleep_rem_min'', rem), (''sleep_wake_min'', wake)]))))))))))))"

definition path_sleep :: "date \<Rightarrow> string" where
  "path_sleep d = ''/1.2/user/-/sleep/date/'' @ date_str d @ ''.json''"

text \<open>
  \<^verbatim>\<open>main\<close> is \<^verbatim>\<open>None\<close> or an entry that has a truthy \<^verbatim>\<open>isMainSleep\<close>, hence a non-empty
  dict: \<^verbatim>\<open>not main\<close> after the loop says that the loop found nothing.
\<close>

definition get_sleep :: "'f pyops \<Rightarrow> 'f session \<Rightarrow> date \<Rightarrow> exc + 'f dict" where
  "get_sleep ops session d =
     bindE (u_get session (path_sleep d)) (\<lambda>data.
     bindE (py_get data ''sleep'' (JArr [])) (\<lambda>sleeps.
     bindE (py_iter sleeps) (\<lambda>ss.
     bindE (find_main ops ss) (\<lambda>found.
     bindE (case found of
              Some s \<Rightarrow> Inr (Some s)
            | None \<Rightarrow> if truthy ops sleeps then bindE (py_index0 sleeps) (\<lambda>s0. Inr (Some s0))
                      else Inr None) (\<lambda>main.
     case main of
       None \<Rightarrow> Inr sleep_defaults
     | Some m \<Rightarrow> if \<not> truthy ops m then Inr sleep_defaults else sleep_row ops m)))))"

definition path_heart :: "date \<Rightarrow> string" where
  "path_heart d = ''/1/user/-/activities/heart/date/'' @ date_str d @ ''/1d.json''"

definition get_heart_rate :: "'f pyops \<Rightarrow> 'f session \<Rightarrow> date \<Rightarrow> exc + 'f dict" where
  "get_heart_rate ops session d =
     bindE (u_get session (path_heart d)) (\<lambda>data.
     bindE (py_get data ''activities-heart'' (JArr [])) (\<lambda>entries.
     if \<not> truthy ops entries then Inr [(''rhr'', JStr [])]
     else
       bindE (py_index0 entries) (\<lambda>e0.
       bindE (py_get e0 ''value'' (JObj [])) (\<lambda>val.
       bindE (py_get val ''restingHeartRate'' (JStr [])) (\<lambda>rhr.
       Inr [(''rhr'', rhr)])))))"

text \<open>
  \<^verbatim>\<open>round(val.get(k, 0), n) if val.get(k) else ""\<close>: the condition is evaluated first,
  and the rounded value only when it is truthy.
\<close>

definition round_if_truthy :: "'f pyops \<Rightarrow> 'f pyval \<Rightarrow> string \<Rightarrow> nat \<Rightarrow> exc + 'f pyval" where
  "round_if_truthy ops val k n =
     bindE (py_get val k JNull) (\<lambda>c.
     if truthy ops c then bindE (py_get val k (JInt 0)) (\<lambda>x. py_round ops x n)
     else Inr (JStr []))"

definition path_hrv :: "date \<Rightarrow> string" where
  "path_hrv d = ''/1/user/-/hrv/date/'' @ date_str d @ ''.json''"

definition get_hrv :: "'f pyops \<Rightarrow> 'f session \<Rightarrow> date \<Rightarrow> exc + 'f dict" where
  "get_hrv ops session d =
     bindE (u_get session (path_hrv d)) (\<lambda>data.
     bindE (py_get data ''hrv'' (JArr [])) (\<lambda>entries.
     if \<not> truthy ops entries then Inr [(''hrv_rmssd'', JStr [])]
     else
       bindE (py_index0 entries) (\<lambda>e0.
       bindE (py_get e0 ''value'' (JObj [])) (\<lambda>val.
       bindE (round_if_truthy ops val ''dailyRmssd'' 2) (\<lambda>r.
       Inr [(''hrv_rmssd'', r)])))))"

definition path_spo2 :: "date \<Rightarrow> string" where
  "path_spo2 d = ''/1/user/-/spo2/date/'' @ date_str d @ ''.json''"

definition get_spo2 :: "'f pyops \<Rightarrow> 'f session \<Rightarrow> date \<Rightarrow> exc + 'f dict" where
  "get_spo2 ops session d =
     bindE (u_get session (path_spo2 d)) (\<lambda>data.
     bindE (py_get data ''value'' data) (\<lambda>val0.
     bindE (if is_list val0 then
              (if truthy ops val0 then py_index0 val0 else Inr (JObj []))
            else Inr val0) (\<lambda>val.
     bindE (py_get val ''avg'' (JStr [])) (\<lambda>avg.
     bindE (py_get val ''min'' (JStr [])) (\<lambda>mn.
     bindE (py_get val ''max'' (JStr [])) (\<lambda>mx.
     Inr [(''spo2_avg'', avg), (''spo2_min'', mn), (''spo2_max'', mx)]))))))"

definition path_br :: "date \<Rightarrow> string" where
  "path_br d = ''/1/user/-/br/date/'' @ date_str d @ ''.json''"

definition get_breathing_rate :: "'f pyops \<Rightarrow> 'f session \<Rightarrow> date \<Rightarrow> exc + 'f dict" where
  "get_breathing_rate ops session d =
     bindE (u_get session (path_br d)) (\<lambda>data.
     bindE (py_get data ''br'' (JArr [])) (\<lambda>entries.
     if \<not> truthy ops entries then Inr [(''breathing_rate'', JStr [])]
     else
       bindE (py_index0 entries) (\<lambda>e0.
       bindE (py_get e0 ''value'' (JObj [])) (\<lambda>val.
       bindE (round_if_truthy ops val ''breathingRate'' 1) (\<lambda>r.
       Inr [(''breathing_rate'', r)])))))"

definition path_skin :: "date \<Rightarrow> string" where
  "path_skin d = ''/1/user/-/temp/skin/date/'' @ date_str d @ ''.json''"

definition get_skin_temp :: "'f pyops \<Rightarrow> 'f session \<Rightarrow> date \<Rightarrow> exc + 'f dict" where
  "get_skin_temp ops session d =
     bindE (u_get session (path_skin d)) (\<lambda>data.
     bindE (py_get data ''tempSkin'' (JArr [])) (\<lambda>entries.
     if \<not> truthy ops entries then Inr [(''skin_temp_variation'', JStr [])]
     else
       bindE (py_index0 entries) (\<lambda>e0.
       bindE (py_get e0 ''value'' (JObj [])) (\<lambda>val.
       bindE (py_get val ''nightlyRelative'' (JStr [])) (\<lambda>v.
       Inr [(''skin_temp_variation'', v)])))))"

text \<open>
  The last lines of \<^verbatim>\<open>get_vo2_max\<close>, from the value of \<^verbatim>\<open>val.get("vo2Max")\<close>: a dict is
  a range; anything else is kept when truthy and replaced by the empty string otherwise.
\<close>

definition render_vo2 :: "'f pyops \<Rightarrow> 'f pyval \<Rightarrow> 'f pyval" where
  "render_vo2 ops vo2 =
     (case vo2 of
        JObj kvs \<Rightarrow>
          JStr (py_str ops (dict_get kvs ''low'' (JStr [])) @ ''-'' @
                py_str ops (dict_get kvs ''high'' (JStr [])))
      | _ \<Rightarrow> if truthy ops vo2 then vo2 else JStr [])"

definition path_vo2 :: "date \<Rightarrow> string" where
  "path_vo2 d = ''/1/user/-/cardioscore/date/'' @ date_str d @ ''.json''"

definition get_vo2_max :: "'f pyops \<Rightarrow> 'f session \<Rightarrow> date \<Rightarrow> exc + 'f dict" where
  "get_vo2_max ops session d =
     bindE (u_get session (path_vo2 d)) (\<lambda>data.
     bindE (py_get data ''cardioScore'' (JArr [])) (\<lambda>entries.
     if \<not> truthy ops entries then Inr [(''vo2_max'', JStr [])]
     else
       bindE (py_index0 entries) (\<lambda>e0.
       bindE (py_get e0 ''value'' (JObj [])) (\<lambda>val.
       bindE (py_get val ''vo2Max'' JNull) (\<lambda>vo2.
       Inr [(''vo2_max'', render_vo2 ops vo2)])))))"

text \<open>
  \<^verbatim>\<open>a.get("startDate", a.get("originalStartTime", ""))[:10]\<close>: the default is evaluated
  before the outer \<^verbatim>\<open>get\<close>, and the slice applies to whichever value comes back.
\<close>

definition log_date :: "'f pyval \<Rightarrow> exc + 'f pyval" where
  "log_date a =
     bindE (py_get a ''originalStartTime'' (JStr [])) (\<lambda>ost.
     bindE (py_get a ''startDate'' ost) (\<lambda>sd.
     py_slice_to 10 sd))"

text \<open>\<^verbatim>\<open>f"{name} ({duration_min}min, {cals}cal)"\<close> for an activity of the target date.\<close>

definition exercise_part :: "'f pyops \<Rightarrow> 'f pyval \<Rightarrow> exc + string" where
  "exercise_part ops a =
     bindE (py_get a ''activityName'' (JStr ''Unknown'')) (\<lambda>name.
     bindE (py_get a ''activeDuration'' (JInt 0)) (\<lambda>dur.
     bindE (py_truediv ops dur 60000) (\<lambda>q.
     bindE (py_round ops q 1) (\<lambda>duration_min.
     bindE (py_get a ''calories'' (JInt 0)) (\<lambda>cals.
     Inr (py_str ops name @ '' ('' @ py_str ops duration_min @ ''min, '' @
          py_str ops cals @ ''cal)''))))))"

text \<open>The loop of \<^verbatim>\<open>get_exercises\<close>; \<open>ds\<close> is \<^verbatim>\<open>str(d)\<close>.\<close>

fun exercise_parts :: "'f pyops \<Rightarrow> string \<Rightarrow> 'f pyval list \<Rightarrow> exc + string list" where
  "exercise_parts ops ds [] = Inr []"
| "exercise_parts ops ds (a # as) =
     bindE (log_date a) (\<lambda>ld.
     if ld \<noteq> JStr ds then exercise_parts ops ds as
     else
       bindE (exercise_part ops a) (\<lambda>p.
       bindE (exercise_parts ops ds as) (\<lambda>ps.
       Inr (p # ps))))"

definition path_exercises :: "date \<Rightarrow> string" where
  "path_exercises d =
     ''/1/user/-/activities/list.json?afterDate='' @ date_str d @ ''&sort=asc&offset=0&limit=20''"

definition get_exercises :: "'f pyops \<Rightarrow> 'f session \<Rightarrow> date \<Rightarrow> exc + 'f dict" where
  "get_exercises ops session d =
     bindE (u_get session (path_exercises d)) (\<lambda>data.
     bindE (py_get data ''activities'' (JArr [])) (\<lambda>activities.
     if \<not> truthy ops activities then Inr [(''exercises'', JStr ''None'')]
     else
       bindE (py_iter activities) (\<lambda>as.
       bindE (exercise_parts ops (date_str d) as) (\<lambda>parts.
       Inr [(''exercises'', JStr (if parts \<noteq> [] then join ''; '' parts else ''None''))]))))"

subsection \<open>Aggregate fetcher\<close>

type_synonym 'f fetcher = "'f pyops \<Rightarrow> 'f session \<Rightarrow> date \<Rightarrow> exc + 'f dict"

definition fetchers :: "'f fetcher list" where
  "fetchers =
     [get_activity_summary, get_azm, get_sleep, get_heart_rate, get_hrv,
      get_spo2, get_breathing_rate, get_skin_temp, get_vo2_max, get_exercises]"

text \<open>
  \<^verbatim>\<open>row.update(other)\<close>: a key already in the row keeps its place and takes the new value,
  a new key goes to the end.
\<close>

definition dict_update :: "'f dict \<Rightarrow> 'f dict \<Rightarrow> 'f dict" where
  "dict_update row other = fold (\<lambda>kv r. AList.update (fst kv) (snd kv) r) other row"

text \<open>
  The loop of \<^verbatim>\<open>fetch_all\<close>: a fetcher that raises an \<^verbatim>\<open>Exception\<close> is skipped (after a
  warning), the row is left as it was and the loop goes on.
\<close>

fun run_fetchers :: "'f fetcher list \<Rightarrow> 'f pyops \<Rightarrow> 'f session \<Rightarrow> date \<Rightarrow> 'f dict \<Rightarrow> 'f dict" where
  "run_fetchers [] ops session d row = row"
| "run_fetchers (fn # fns) ops session d row =
     (case fn ops session d of
        Inr m \<Rightarrow> run_fetchers fns ops session d (dict_update row m)
      | Inl e \<Rightarrow> run_fetchers fns ops session d row)"

text \<open>
  \<^verbatim>\<open>fetch_all(d=None)\<close>. \<open>today\<close> is what \<^verbatim>\<open>date.today()\<close> returns and \<open>get_session\<close>
  the outcome of \<^verbatim>\<open>fitbit_auth.get_session()\<close>, which exits when no token is stored.
\<close>

definition fetch_all ::
  "'f pyops \<Rightarrow> date \<Rightarrow> (error + 'f session) \<Rightarrow> date option \<Rightarrow> error + 'f dict" where
  "fetch_all ops today get_session dopt =
     (let d = (case dopt of None \<Rightarrow> today | Some d' \<Rightarrow> d') in
      bindE get_session (\<lambda>session.
      Inr (run_fetchers fetchers ops session d [])))"

section \<open>The world outside: spreadsheet, clock, configuration\<close>

text \<open>
  The environment fixes what the collaborators answer: the float operations, today's date,
  the outcome of \<^verbatim>\<open>fitbit_auth.get_session()\<close>, of \<^verbatim>\<open>_get_sheet()\<close> (\<open>None\<close> when the
  sheet opens), of \<^verbatim>\<open>sheet.worksheet(title)\<close>, of each call of \<^verbatim>\<open>ws.append_row\<close>
  (numbered from 0 in the order they are made), the successive readings of the clock, the
  configured key, \<^verbatim>\<open>date.fromisoformat\<close> and \<^verbatim>\<open>traceback.format_exc\<close>.
  The world records what the program did: every \<^verbatim>\<open>append_row\<close> it attempted, the rows
  the sheet holds, how often the clock was read, which collaborators the invocation
  surfaces called, and the HTTP responses sent.
\<close>

record 'f env =
  env_ops :: "'f pyops"
  env_today :: date
  env_session :: "error + 'f session"
  open_sheet :: "error option"
  find_worksheet :: "string \<Rightarrow> exc option"
  append_outcome :: "nat \<Rightarrow> exc option"
  clock :: "nat \<Rightarrow> string"
  API_KEY :: string
  fromisoformat :: "string \<Rightarrow> date option"
  format_exc :: "exc \<Rightarrow> string"

record 'f world =
  attempts :: "(string \<times> 'f pyval list) list"
  committed :: "(string \<times> 'f pyval list) list"
  clock_reads :: nat
  calls :: "string list"
  responses :: "(nat \<times> string) list"

type_synonym 'f outcome = "(error + unit) \<times> 'f world"

section \<open>The sheet writer (\<^verbatim>\<open>sheets_writer.py\<close>)\<close>

definition FITBIT_COLUMNS :: "string list" where
  "FITBIT_COLUMNS =
     [''steps'', ''distance_km'', ''floors'', ''calories_total'', ''calories_activity'',
      ''azm_fat_burn'', ''azm_cardio'', ''azm_peak'', ''azm_total'',
      ''sleep_start'', ''sleep_end'', ''sleep_duration_hrs'', ''sleep_efficiency'',
      ''sleep_deep_min'', ''sleep_light_min'', ''sleep_rem_min'', ''sleep_wake_min'',
      ''rhr'', ''hrv_rmssd'', ''spo2_avg'', ''spo2_min'', ''spo2_max'',
      ''breathing_rate'', ''skin_temp_variation'', ''vo2_max'', ''exercises'']"

text \<open>\<^verbatim>\<open>_get_sheet()\<close> followed by \<^verbatim>\<open>sheet.worksheet(title)\<close>; the handle is the title.\<close>

definition open_worksheet :: "'f env \<Rightarrow> string \<Rightarrow> error + string" where
  "open_worksheet env title =
     (case open_sheet env of
        Some e \<Rightarrow> Inl e
      | None \<Rightarrow>
          (case find_worksheet env title of
             Some x \<Rightarrow> Inl (Exception x)
           | None \<Rightarrow> Inr title))"

definition u_timestamp :: "'f env \<Rightarrow> 'f world \<Rightarrow> string \<times> 'f world" where
  "u_timestamp env w = (clock env (clock_reads w), w\<lparr>clock_reads := Suc (clock_reads w)\<rparr>)"

text \<open>One \<^verbatim>\<open>ws.append_row(row, ...)\<close>: the attempt is recorded, the row only if it succeeds.\<close>

definition append_row :: "'f env \<Rightarrow> string \<Rightarrow> 'f pyval list \<Rightarrow> 'f world \<Rightarrow> 'f outcome" where
  "append_row env ws row w =
     (let w' = w\<lparr>attempts := attempts w @ [(ws, row)]\<rparr> in
      case append_outcome env (length (attempts w)) of
        Some x \<Rightarrow> (Inl (Exception x), w')
      | None \<Rightarrow> (Inr (), w'\<lparr>committed := committed w' @ [(ws, row)]\<rparr>))"

text \<open>\<^verbatim>\<open>for row in rows: ws.append_row(row, ...)\<close>: an exception leaves the loop.\<close>

fun append_rows :: "'f env \<Rightarrow> string \<Rightarrow> 'f pyval list list \<Rightarrow> 'f world \<Rightarrow> 'f outcome" where
  "append_rows env ws [] w = (Inr (), w)"
| "append_rows env ws (row # rows) w =
     (case append_row env ws row w of
        (Inl e, w') \<Rightarrow> (Inl e, w')
      | (Inr _, w') \<Rightarrow> append_rows env ws rows w')"

definition append_fitbit :: "'f env \<Rightarrow> 'f dict \<Rightarrow> 'f world \<Rightarrow> 'f outcome" where
  "append_fitbit env metrics w =
     (case open_worksheet env ''Fitbit'' of
        Inl e \<Rightarrow> (Inl e, w)
      | Inr ws \<Rightarrow>
          (let (ts, w1) = u_timestamp env w;
               row = [JStr ts] @ map (\<lambda>col. dict_get metrics col (JStr [])) FITBIT_COLUMNS
           in append_row env ws row w1))"

text \<open>The rows \<^verbatim>\<open>append_bp\<close> builds from \<^verbatim>\<open>enumerate(readings, 1)\<close>.\<close>

definition bp_rows :: "string \<Rightarrow> 'f dict list \<Rightarrow> 'f pyval list list" where
  "bp_rows ts readings =
     map (\<lambda>ir. [JStr ts,
                 JInt (int (fst ir)),
                 dict_get (snd ir) ''systolic'' (JStr []),
                 dict_get (snd ir) ''diastolic'' (JStr []),
                 dict_get (snd ir) ''pulse'' (JStr []),
                 dict_get (snd ir) ''notes'' (JStr [])])
         (List.enumerate 1 readings)"

definition append_bp :: "'f env \<Rightarrow> 'f dict list \<Rightarrow> 'f world \<Rightarrow> 'f outcome" where
  "append_bp env readings w =
     (case open_worksheet env ''Blood Pressure'' of
        Inl e \<Rightarrow> (Inl e, w)
      | Inr ws \<Rightarrow>
          (let (ts, w1) = u_timestamp env w in
           append_rows env ws (bp_rows ts readings) w1))"

text \<open>\<^verbatim>\<open>str.capitalize()\<close> on ASCII letters: the first upper case, the others lower case.\<close>

definition to_upper :: "char \<Rightarrow> char" where
  "to_upper c = (if 97 \<le> (of_char c :: nat) \<and> (of_char c :: nat) \<le> 122
                 then char_of ((of_char c :: nat) - 32) else c)"

definition to_lower :: "char \<Rightarrow> char" where
  "to_lower c = (if 65 \<le> (of_char c :: nat) \<and> (of_char c :: nat) \<le> 90
                 then char_of ((of_char c :: nat) + 32) else c)"

fun capitalize :: "string \<Rightarrow> string" where
  "capitalize [] = []"
| "capitalize (c # cs) = to_upper c # map to_lower cs"

definition diet_rows :: "string \<Rightarrow> string \<Rightarrow> 'f dict list \<Rightarrow> 'f pyval list list" where
  "diet_rows ts meal items =
     map (\<lambda>item. [JStr ts,
                   JStr (capitalize meal),
                   dict_get item ''food_item'' (JStr []),
                   dict_get item ''weight_grams'' (JStr []),
                   dict_get item ''notes'' (JStr [])])
         items"

definition append_diet :: "'f env \<Rightarrow> string \<Rightarrow> 'f dict list \<Rightarrow> 'f world \<Rightarrow> 'f outcome" where
  "append_diet env meal items w =
     (case open_worksheet env ''Diet'' of
        Inl e \<Rightarrow> (Inl e, w)
      | Inr ws \<Rightarrow>
          (let (ts, w1) = u_timestamp env w in
           append_rows env ws (diet_rows ts meal items) w1))"

section \<open>The command line (\<^verbatim>\<open>main.py\<close>)\<close>














definition cmd_fitbit :: "'f env \<Rightarrow> date option \<Rightarrow> 'f world \<Rightarrow> 'f outcome" where
  "cmd_fitbit env arg_date w =
     (let target = (case arg_date of Some d \<Rightarrow> d | None \<Rightarrow> env_today env);
          w1 = w\<lparr>calls := calls w @ [''fetch_all'']\<rparr>
      in case fetch_all (env_ops env) (env_today env) (env_session env) (Some target) of
           Inl e \<Rightarrow> (Inl e, w1)
         | Inr metrics \<Rightarrow> append_fitbit env metrics (w1\<lparr>calls := calls w1 @ [''append_fitbit'']\<rparr>))"

section \<open>The HTTP trigger (\<^verbatim>\<open>server.py\<close>)\<close>

text \<open>
  A request after \<^verbatim>\<open>urlparse\<close> and \<^verbatim>\<open>parse_qs\<close>: the path, and for each parameter name the
  list of its values.
\<close>

record request =
  req_path :: string
  req_params :: "(string \<times> string list) list"

text \<open>\<^verbatim>\<open>params.get(name, [None])[0]\<close>\<close>

definition first_param :: "request \<Rightarrow> string \<Rightarrow> exc + string option" where
  "first_param req name =
     (case map_of (req_params req) name of
        None \<Rightarrow> Inr None
      | Some [] \<Rightarrow> Inl IndexError
      | Some (v # vs) \<Rightarrow> Inr (Some v))"

definition is_ascii :: "string \<Rightarrow> bool" where
  "is_ascii s = list_all (\<lambda>c. (of_char c :: nat) < 128) s"

text \<open>
  \<^verbatim>\<open>hmac.compare_digest(a, b)\<close> on two \<^verbatim>\<open>str\<close>: the library compares ASCII strings only
  ("either str (ASCII only) or a bytes-like object") and raises \<^verbatim>\<open>TypeError\<close> when either
  holds another character. A \<open>char\<close> of value 128 or more stands for a character outside
  ASCII.
\<close>

definition compare_digest :: "string \<Rightarrow> string \<Rightarrow> exc + bool" where
  "compare_digest a b = (if is_ascii a \<and> is_ascii b then Inr (a = b) else Inl TypeError)"

definition u_respond :: "nat \<Rightarrow> string \<Rightarrow> 'f world \<Rightarrow> 'f outcome" where
  "u_respond code body w = (Inr (), w\<lparr>responses := responses w @ [(code, body)]\<rparr>)"

definition summary_lines :: "'f pyops \<Rightarrow> 'f dict \<Rightarrow> string" where
  "summary_lines fops metrics =
     join [CHR 0x0A] (map (\<lambda>kv. ''  '' @ fst kv @ '': '' @ py_str fops (snd kv)) metrics)"

text \<open>
  The fetch and write pipeline of \<^verbatim>\<open>do_GET\<close> with its \<^verbatim>\<open>except Exception\<close>: an exception
  becomes a 500 response, a \<^verbatim>\<open>SystemExit\<close> passes through.
\<close>

definition run_pipeline :: "'f env \<Rightarrow> date \<Rightarrow> 'f world \<Rightarrow> 'f outcome" where
  "run_pipeline env target w =
     (let w1 = w\<lparr>calls := calls w @ [''fetch_all'']\<rparr> in
      case fetch_all (env_ops env) (env_today env) (env_session env) (Some target) of
        Inl (Exception x) \<Rightarrow> u_respond 500 (''Error:'' @ [CHR 0x0A] @ format_exc env x) w1
      | Inl (SystemExit n) \<Rightarrow> (Inl (SystemExit n), w1)
      | Inr metrics \<Rightarrow>
          (case append_fitbit env metrics (w1\<lparr>calls := calls w1 @ [''append_fitbit'']\<rparr>) of
             (Inl (Exception x), w2) \<Rightarrow> u_respond 500 (''Error:'' @ [CHR 0x0A] @ format_exc env x) w2
           | (Inl (SystemExit n), w2) \<Rightarrow> (Inl (SystemExit n), w2)
           | (Inr _, w2) \<Rightarrow>
               u_respond 200
                 (''OK '' @ [CHR 0xE2, CHR 0x80, CHR 0x94] @ '' Fitbit data for '' @ date_str target @
                  '' written to sheet.'' @ [CHR 0x0A, CHR 0x0A] @ summary_lines (env_ops env) metrics) w2))"

definition do_GET :: "'f env \<Rightarrow> request \<Rightarrow> 'f world \<Rightarrow> 'f outcome" where
  "do_GET env req w =
     (if req_path req \<noteq> ''/fetch'' then u_respond 404 ''Not found. Use /fetch?key=YOUR_API_KEY'' w
      else
        case first_param req ''key'' of
          Inl x \<Rightarrow> (Inl (Exception x), w)
        | Inr key \<Rightarrow>
            (case (case key of
                     None \<Rightarrow> Inr True
                   | Some k \<Rightarrow> if k = [] then Inr True
                               else bindE (compare_digest k (API_KEY env)) (\<lambda>same. Inr (\<not> same))) of
               Inl x \<Rightarrow> (Inl (Exception x), w)
             | Inr True \<Rightarrow> u_respond 403 ''Forbidden: invalid or missing API key.'' w
             | Inr False \<Rightarrow>
                 (case first_param req ''date'' of
                    Inl x \<Rightarrow> (Inl (Exception x), w)
                  | Inr raw_date \<Rightarrow>
                      (case (case raw_date of
                               None \<Rightarrow> Some (env_today env)
                             | Some r \<Rightarrow> if r = [] then Some (env_today env) else fromisoformat env r) of
                         None \<Rightarrow>
                           u_respond 400
                             (''Bad date format: '' @ (case raw_date of Some r \<Rightarrow> r | None \<Rightarrow> ''None'') @
                              ''. Use YYYY-MM-DD.'') w
                       | Some target \<Rightarrow> run_pipeline env target w))))"

section \<open>Specification-side definitions and example inputs\<close>

text \<open>
  What the specification says \<^verbatim>\<open>distance_km\<close> is, in its own words: the value of the entry
  tagged \<^verbatim>\<open>"activity": "total"\<close>, rounded to 2 decimals, and 0 when there is none.
\<close>

definition tagged_total :: "'f pyval \<Rightarrow> bool" where
  "tagged_total e = (py_get e ''activity'' JNull = Inr (JStr ''total''))"

definition spec_distance_km :: "'f pyops \<Rightarrow> 'f pyval list \<Rightarrow> exc + 'f pyval" where
  "spec_distance_km fops ds =
     (case find tagged_total ds of
        None \<Rightarrow> Inr (JInt 0)
      | Some e \<Rightarrow> bindE (py_get e ''distance'' (JInt 0)) (\<lambda>x. py_round fops x 2))"

text \<open>
  A reading of floats for running examples: exact rationals, \<^verbatim>\<open>round\<close> to the nearest
  decimal with ties to even, and \<^verbatim>\<open>str\<close> as the finite decimal expansion. No theorem
  about the program depends on it.
\<close>

definition round_half_even :: "rat \<Rightarrow> int" where
  "round_half_even y =
     (let f = \<lfloor>y\<rfloor>; r = y - of_int f in
      if r < 1/2 then f else if 1/2 < r then f + 1 else if even f then f else f + 1)"

fun frac_digits :: "nat \<Rightarrow> rat \<Rightarrow> string" where
  "frac_digits 0 r = []"
| "frac_digits (Suc n) r =
     (if r = 0 then []
      else (let t = r * 10 in digit_char (nat \<lfloor>t\<rfloor>) # frac_digits n (t - of_int \<lfloor>t\<rfloor>)))"

definition dec_str :: "rat \<Rightarrow> string" where
  "dec_str x =
     (let a = \<bar>x\<bar>; ip = \<lfloor>a\<rfloor>; fr = a - of_int ip in
      (if x < 0 then ''-'' else []) @ nat_str (nat ip) @ ''.'' @
      (if fr = 0 then ''0'' else frac_digits 17 fr))"

definition demo_ops :: "rat pyops" where
  "demo_ops = \<lparr>
     int_truediv = (\<lambda>i k. Some (of_int i / of_int k)),
     flt_truediv = (\<lambda>x k. x / of_int k),
     flt_round = (\<lambda>x n. of_int (round_half_even (x * 10 ^ n)) / 10 ^ n),
     flt_is_zero = (\<lambda>x. x = 0),
     flt_str = dec_str,
     str_repr = (\<lambda>s. [CHR 0x27] @ s @ [CHR 0x27]) \<rparr>"

definition ex_date :: date where
  "ex_date = \<lparr>year = 2024, month = 3, day = 9\<rparr>"

definition ex_distances :: "rat pyval list" where
  "ex_distances =
     [JObj [(''activity'', JStr ''tracker''), (''distance'', JFloat (41/10))],
      JObj [(''activity'', JStr ''total''), (''distance'', JFloat (5237/1000))],
      JObj [(''activity'', JStr ''veryActive''), (''distance'', JInt 2)]]"

definition ex_summary :: "rat dict" where
  "ex_summary = [(''steps'', JInt 9000), (''distances'', JArr ex_distances)]"

text \<open>
  The entry the specification chooses: the one flagged as main sleep, else the first.
  \<open>stages_ok\<close> says that \<^verbatim>\<open>levels\<close>, its \<^verbatim>\<open>summary\<close> and the four stages are objects where
  present, so that reshaping the entry raises nothing.
\<close>

definition flagged_main :: "'f pyops \<Rightarrow> 'f pyval \<Rightarrow> bool" where
  "flagged_main fops s =
     (case py_get s ''isMainSleep'' JNull of Inr v \<Rightarrow> truthy fops v | Inl x \<Rightarrow> False)"

definition spec_main_sleep :: "'f pyops \<Rightarrow> 'f pyval list \<Rightarrow> 'f pyval option" where
  "spec_main_sleep fops ss =
     (case find (flagged_main fops) ss of
        Some s \<Rightarrow> Some s
      | None \<Rightarrow> (case ss of [] \<Rightarrow> None | s # rest \<Rightarrow> Some s))"

definition stages_ok :: "'f dict \<Rightarrow> bool" where
  "stages_ok m =
     (case dict_get m ''levels'' (JObj []) of
        JObj lv \<Rightarrow>
          (case dict_get lv ''summary'' (JObj []) of
             JObj sm \<Rightarrow>
               list_all (\<lambda>st. is_dict (dict_get sm st (JObj [])))
                 [''deep'', ''light'', ''rem'', ''wake'']
           | _ \<Rightarrow> False)
      | _ \<Rightarrow> False)"

definition session_of :: "(string \<times> rat pyval) list \<Rightarrow> rat session" where
  "session_of tbl url =
     (case map_of tbl url of
        Some v \<Rightarrow> Inr \<lparr>status_code = 200, json = Inr v\<rparr>
      | None \<Rightarrow> Inl ConnectionError)"

definition ex_sleeps :: "rat pyval list" where
  "ex_sleeps =
     [JObj [(''isMainSleep'', JBool False), (''duration'', JInt 3600000)],
      JObj [(''isMainSleep'', JBool True), (''duration'', JInt 27000000),
            (''levels'', JObj [(''summary'', JObj [(''deep'', JObj [(''minutes'', JInt 80)])])])]]"

definition ex_sleep_session :: "rat session" where
  "ex_sleep_session = session_of [(BASE @ path_sleep ex_date, JObj [(''sleep'', JArr ex_sleeps)])]"

definition ex_main :: "rat dict" where
  "ex_main = [(''isMainSleep'', JBool True), (''duration'', JInt 27000000),
            (''levels'', JObj [(''summary'', JObj [(''deep'', JObj [(''minutes'', JInt 80)])])])]"

text \<open>Example responses of the cardio score endpoint: a range, and the scalar 0.\<close>

definition ex_vo2_range_session :: "rat session" where
  "ex_vo2_range_session =
     session_of [(BASE @ path_vo2 ex_date,
       JObj [(''cardioScore'',
              JArr [JObj [(''value'',
                          JObj [(''vo2Max'', JObj [(''low'', JInt 42), (''high'', JInt 46)])])]])])]"

definition ex_vo2_zero_session :: "rat session" where
  "ex_vo2_zero_session =
     session_of [(BASE @ path_vo2 ex_date,
       JObj [(''cardioScore'', JArr [JObj [(''value'', JObj [(''vo2Max'', JInt 0)])]])])]"

text \<open>
  The date an activity is filed under. \<open>start_of\<close> is \<^verbatim>\<open>startDate\<close>, or \<^verbatim>\<open>originalStartTime\<close>
  when \<^verbatim>\<open>startDate\<close> is absent; \<open>on_date\<close> compares its first 10 characters with the target
  date, as the code does; \<open>dated\<close> says that the activity is an object whose \<open>start_of\<close> is a
  string. \<open>claimed_on_date\<close> is the test in the words of the claim: \<^verbatim>\<open>startDate\<close> itself
  equals the date, and only \<^verbatim>\<open>originalStartTime\<close> is cut to 10 characters.
\<close>

definition start_of :: "'f dict \<Rightarrow> 'f pyval" where
  "start_of a =
     (case map_of a ''startDate'' of
        Some v \<Rightarrow> v
      | None \<Rightarrow> dict_get a ''originalStartTime'' (JStr []))"

definition on_date :: "string \<Rightarrow> 'f pyval \<Rightarrow> bool" where
  "on_date ds a =
     (case a of
        JObj kvs \<Rightarrow> (case start_of kvs of JStr s \<Rightarrow> take 10 s = ds | _ \<Rightarrow> False)
      | _ \<Rightarrow> False)"

definition dated :: "'f pyval \<Rightarrow> bool" where
  "dated a =
     (case a of
        JObj kvs \<Rightarrow> (case start_of kvs of JStr s \<Rightarrow> True | _ \<Rightarrow> False)
      | _ \<Rightarrow> False)"

definition claimed_on_date :: "string \<Rightarrow> 'f dict \<Rightarrow> bool" where
  "claimed_on_date ds a =
     (case map_of a ''startDate'' of
        Some v \<Rightarrow> v = JStr ds
      | None \<Rightarrow>
          (case dict_get a ''originalStartTime'' (JStr []) of
             JStr s \<Rightarrow> take 10 s = ds
           | _ \<Rightarrow> False))"

definition ex_run :: "rat dict" where
  "ex_run =
     [(''startDate'', JStr ''2024-03-09T07:00:00''), (''activityName'', JStr ''Run''),
      (''activeDuration'', JInt 1800000), (''calories'', JInt 250)]"

definition ex_walk :: "rat dict" where
  "ex_walk =
     [(''originalStartTime'', JStr ''2024-03-10T18:30:00.000+01:00''),
      (''activityName'', JStr ''Walk''), (''activeDuration'', JInt 600000), (''calories'', JInt 40)]"

definition ex_exercise_session :: "rat session" where
  "ex_exercise_session =
     session_of [(BASE @ path_exercises ex_date,
                  JObj [(''activities'', JArr [JObj ex_run, JObj ex_walk])])]"

text \<open>
  The endpoints of the ten fetchers, in the order \<^verbatim>\<open>fetch_all\<close> runs them: the path, the
  top-level key the fetcher reads, and the empty value of that key (an empty list; an empty
  object for the activity summary). An empty but well-formed body is \<^verbatim>\<open>{}\<close> or the object
  that binds the key to its empty value.
\<close>

definition endpoints :: "((date \<Rightarrow> string) \<times> string \<times> 'f pyval) list" where
  "endpoints =
     [(path_activity, ''summary'', JObj []),
      (path_azm, ''activities-active-zone-minutes'', JArr []),
      (path_sleep, ''sleep'', JArr []),
      (path_heart, ''activities-heart'', JArr []),
      (path_hrv, ''hrv'', JArr []),
      (path_spo2, ''value'', JArr []),
      (path_br, ''br'', JArr []),
      (path_skin, ''tempSkin'', JArr []),
      (path_vo2, ''cardioScore'', JArr []),
      (path_exercises, ''activities'', JArr [])]"

definition empty_response :: "'f session \<Rightarrow> date \<Rightarrow> (date \<Rightarrow> string) \<times> string \<times> 'f pyval \<Rightarrow> bool" where
  "empty_response session d ep =
     (u_get session (fst ep d) = Inr (JObj []) \<or>
      u_get session (fst ep d) = Inr (JObj [(fst (snd ep), snd (snd ep))]))"

text \<open>The documented defaults, in the order of the sheet's columns.\<close>

definition default_row :: "'f dict" where
  "default_row =
     [(''steps'', JInt 0), (''distance_km'', JInt 0), (''floors'', JInt 0),
      (''calories_total'', JInt 0), (''calories_activity'', JInt 0),
      (''azm_fat_burn'', JInt 0), (''azm_cardio'', JInt 0),
      (''azm_peak'', JInt 0), (''azm_total'', JInt 0),
      (''sleep_start'', JStr []), (''sleep_end'', JStr []),
      (''sleep_duration_hrs'', JInt 0), (''sleep_efficiency'', JInt 0),
      (''sleep_deep_min'', JInt 0), (''sleep_light_min'', JInt 0),
      (''sleep_rem_min'', JInt 0), (''sleep_wake_min'', JInt 0),
      (''rhr'', JStr []), (''hrv_rmssd'', JStr []),
      (''spo2_avg'', JStr []), (''spo2_min'', JStr []), (''spo2_max'', JStr []),
      (''breathing_rate'', JStr []), (''skin_temp_variation'', JStr []),
      (''vo2_max'', JStr []), (''exercises'', JStr ''None'')]"

text \<open>The keys each fetcher returns, in the order of \<open>fetchers\<close>.\<close>

definition fetcher_keys :: "string list list" where
  "fetcher_keys =
     [[''steps'', ''distance_km'', ''floors'', ''calories_total'', ''calories_activity''],
      [''azm_fat_burn'', ''azm_cardio'', ''azm_peak'', ''azm_total''],
      [''sleep_start'', ''sleep_end'', ''sleep_duration_hrs'', ''sleep_efficiency'',
       ''sleep_deep_min'', ''sleep_light_min'', ''sleep_rem_min'', ''sleep_wake_min''],
      [''rhr''],
      [''hrv_rmssd''],
      [''spo2_avg'', ''spo2_min'', ''spo2_max''],
      [''breathing_rate''],
      [''skin_temp_variation''],
      [''vo2_max''],
      [''exercises'']]"

text \<open>What a fetcher contributes to the row: its mapping, or nothing when it raised.\<close>

definition contribution :: "exc + 'f dict \<Rightarrow> 'f dict" where
  "contribution r = (case r of Inr m \<Rightarrow> m | Inl e \<Rightarrow> [])"

text \<open>Example sessions: every endpoint answers \<^verbatim>\<open>{}\<close>; the same with the heart rate failing.\<close>

definition ex_empty_session :: "rat session" where
  "ex_empty_session url = Inr \<lparr>status_code = 200, json = Inr (JObj [])\<rparr>"

definition ex_heart_down_session :: "rat session" where
  "ex_heart_down_session url =
     (if url = BASE @ path_heart ex_date then Inr \<lparr>status_code = 503, json = Inl JSONDecodeError\<rparr>
      else Inr \<lparr>status_code = 200, json = Inr (JObj [])\<rparr>)"

text \<open>
  An example environment in which everything works, and the world before any command ran.
\<close>

definition ex_env :: "rat env" where
  "ex_env = \<lparr>
     env_ops = demo_ops,
     env_today = ex_date,
     env_session = Inr ex_empty_session,
     open_sheet = None,
     find_worksheet = (\<lambda>title. None),
     append_outcome = (\<lambda>n. None),
     clock = (\<lambda>n. ''2024-03-09 08:00:0'' @ nat_str n),
     API_KEY = ''s3cret'',
     fromisoformat = (\<lambda>s. if s = ''2024-03-09'' then Some ex_date else None),
     format_exc = (\<lambda>x. ''Traceback (most recent call last): ...'') \<rparr>"

definition ex_world :: "rat world" where
  "ex_world = \<lparr>attempts = [], committed = [], clock_reads = 0, calls = [], responses = []\<rparr>"

text \<open>The same environment with a spreadsheet API that refuses the second append.\<close>

definition ex_env_failing :: "rat env" where
  "ex_env_failing = ex_env\<lparr>append_outcome := (\<lambda>n. if n = 1 then Some APIError else None)\<rparr>"

definition ex_readings :: "rat dict list" where
  "ex_readings =
     [[(''systolic'', JInt 120), (''diastolic'', JInt 80), (''pulse'', JInt 65), (''notes'', JStr [])],
      [(''systolic'', JInt 118), (''diastolic'', JInt 78), (''pulse'', JStr []), (''notes'', JStr [])],
      [(''systolic'', JInt 115), (''diastolic'', JInt 76), (''pulse'', JInt 60), (''notes'', JStr [])]]"

definition ex_items :: "rat dict list" where
  "ex_items =
     [[(''food_item'', JStr ''Rice''), (''weight_grams'', JInt 300), (''notes'', JStr [])],
      [(''food_item'', JStr ''Steak''), (''weight_grams'', JInt 150), (''notes'', JStr [])]]"

text \<open>The cells of the row \<^verbatim>\<open>append_bp\<close> writes for the reading at position \<open>j\<close> (from 0).\<close>

definition bp_row :: "string \<Rightarrow> nat \<Rightarrow> 'f dict \<Rightarrow> 'f pyval list" where
  "bp_row ts j r =
     [JStr ts, JInt (int j + 1),
      dict_get r ''systolic'' (JStr []), dict_get r ''diastolic'' (JStr []),
      dict_get r ''pulse'' (JStr []), dict_get r ''notes'' (JStr [])]"

text \<open>A request whose key holds a character outside ASCII (\<^verbatim>\<open>/fetch?key=%C3%A9\<close>).\<close>

definition ex_non_ascii_request :: request where
  "ex_non_ascii_request = \<lparr>req_path = ''/fetch'', req_params = [(''key'', [[CHR 0xE9]])]\<rparr>"

text \<open>
  An activity response carrying \<open>ex_summary\<close>; a session whose every body is the empty list
  \<^verbatim>\<open>[]\<close>; and one that answers \<^verbatim>\<open>[]\<close> on the SpO2 endpoint and \<^verbatim>\<open>{}\<close> elsewhere.
\<close>

definition ex_activity_session :: "rat session" where
  "ex_activity_session =
     session_of [(BASE @ path_activity ex_date, JObj [(''summary'', JObj ex_summary)])]"

definition ex_list_body_session :: "rat session" where
  "ex_list_body_session url = Inr \<lparr>status_code = 200, json = Inr (JArr [])\<rparr>"

definition ex_spo2_list_session :: "rat session" where
  "ex_spo2_list_session url =
     (if url = BASE @ path_spo2 ex_date then Inr \<lparr>status_code = 200, json = Inr (JArr [])\<rparr>
      else Inr \<lparr>status_code = 200, json = Inr (JObj [])\<rparr>)"

section \<open>Properties\<close>

subsection \<open>Basic facts\<close>

lemma bindE_Inr [simp]: "bindE (Inr v) f = f v"
  by (simp add: bindE_def)

lemma bindE_Inl [simp]: "bindE (Inl e) f = Inl e"
  by (simp add: bindE_def)

lemma is_dict_iff: "is_dict v \<longleftrightarrow> (\<exists>kvs. v = JObj kvs)"
  by (cases v) simp_all

subsection \<open>The total distance\<close>

lemma total_distance_loop_find:
  "list_all is_dict ds \<Longrightarrow> total_distance_loop fops ds = spec_distance_km fops ds"
proof (induction ds)
  case Nil
  show ?case by (simp add: spec_distance_km_def)
next
  case (Cons e es)
  then obtain kvs where e: "e = JObj kvs" by (auto simp: is_dict_iff)
  from Cons have IH: "total_distance_loop fops es = spec_distance_km fops es" by simp
  show ?case
    by (simp add: e IH spec_distance_km_def tagged_total_def)
qed

lemma u_total_distance_find:
  assumes "dict_get summary ''distances'' (JArr []) = JArr ds"
    and "list_all is_dict ds"
  shows "u_total_distance fops (JObj summary) = spec_distance_km fops ds"
  using assms
  by (simp add: u_total_distance_def total_distance_loop_find)

text \<open>
  C3. For an activity response whose summary is an object and whose \<^verbatim>\<open>distances\<close> is
  absent or a list of objects, \<^verbatim>\<open>get_activity_summary\<close> binds \<^verbatim>\<open>distance_km\<close> to what
  \<^verbatim>\<open>_total_distance\<close> returns for the summary, and that is the \<^verbatim>\<open>distance\<close> of the first
  entry whose \<^verbatim>\<open>activity\<close> is \<^verbatim>\<open>"total"\<close>, rounded to 2 decimals by \<^verbatim>\<open>round\<close>, and the integer
  0 when no entry is tagged so, which includes the absent and the empty list. (When the
  tagged distance is no number, \<^verbatim>\<open>round\<close> raises and so does the fetcher.)
\<close>

theorem distance_km_is_tagged_total:
  assumes "u_get session (path_activity d) = Inr (JObj body)"
    and "dict_get body ''summary'' (JObj []) = JObj summary"
    and "dict_get summary ''distances'' (JArr []) = JArr ds"
    and "list_all is_dict ds"
  shows "get_activity_summary fops session d =
           bindE (case find tagged_total ds of
                    None \<Rightarrow> Inr (JInt 0)
                  | Some e \<Rightarrow> bindE (py_get e ''distance'' (JInt 0)) (\<lambda>x. py_round fops x 2))
             (\<lambda>km. Inr [(''steps'', dict_get summary ''steps'' (JInt 0)),
                         (''distance_km'', km),
                         (''floors'', dict_get summary ''floors'' (JInt 0)),
                         (''calories_total'', dict_get summary ''caloriesOut'' (JInt 0)),
                         (''calories_activity'', dict_get summary ''activityCalories'' (JInt 0))]) \<and>
         u_total_distance fops (JObj summary) =
           (case find tagged_total ds of
              None \<Rightarrow> Inr (JInt 0)
            | Some e \<Rightarrow> bindE (py_get e ''distance'' (JInt 0)) (\<lambda>x. py_round fops x 2))"
proof -
  have td: "u_total_distance fops (JObj summary) =
           (case find tagged_total ds of
              None \<Rightarrow> Inr (JInt 0)
            | Some e \<Rightarrow> bindE (py_get e ''distance'' (JInt 0)) (\<lambda>x. py_round fops x 2))"
    using u_total_distance_find [OF assms(3,4)] by (simp add: spec_distance_km_def)
  have "get_activity_summary fops session d =
          bindE (u_total_distance fops (JObj summary))
            (\<lambda>km. Inr [(''steps'', dict_get summary ''steps'' (JInt 0)),
                        (''distance_km'', km),
                        (''floors'', dict_get summary ''floors'' (JInt 0)),
                        (''calories_total'', dict_get summary ''caloriesOut'' (JInt 0)),
                        (''calories_activity'', dict_get summary ''activityCalories'' (JInt 0))])"
    using assms(1,2) by (simp add: get_activity_summary_def)
  with td show ?thesis by simp
qed

theorem distance_km_is_tagged_total_witness:
  "u_get ex_activity_session (path_activity ex_date) = Inr (JObj [(''summary'', JObj ex_summary)]) \<and>
   dict_get ex_summary ''distances'' (JArr []) = JArr ex_distances \<and>
   list_all is_dict ex_distances \<and>
   get_activity_summary demo_ops ex_activity_session ex_date =
     Inr [(''steps'', JInt 9000), (''distance_km'', JFloat (131/25)), (''floors'', JInt 0),
          (''calories_total'', JInt 0), (''calories_activity'', JInt 0)] \<and>
   u_total_distance demo_ops (JObj ex_summary) = Inr (JFloat (131/25))"
proof -
  have h1: "u_get ex_activity_session (path_activity ex_date) =
              Inr (JObj [(''summary'', JObj ex_summary)])"
    by (simp add: u_get_def ex_activity_session_def session_of_def raise_for_status_def)
  have h2: "dict_get [(''summary'', JObj ex_summary)] ''summary'' (JObj []) = JObj ex_summary"
    by (simp add: dict_get_def)
  have h3: "dict_get ex_summary ''distances'' (JArr []) = JArr ex_distances"
    by code_simp
  have h4: "list_all is_dict ex_distances"
    by code_simp
  have ev: "(case find tagged_total ex_distances of
               None \<Rightarrow> Inr (JInt 0)
             | Some e \<Rightarrow> bindE (py_get e ''distance'' (JInt 0)) (\<lambda>x. py_round demo_ops x 2))
            = Inr (JFloat (131/25))"
    by code_simp
  have f: "dict_get ex_summary ''steps'' (JInt 0) = JInt 9000"
    "dict_get ex_summary ''floors'' (JInt 0) = JInt 0"
    "dict_get ex_summary ''caloriesOut'' (JInt 0) = JInt 0"
    "dict_get ex_summary ''activityCalories'' (JInt 0) = JInt 0"
    by code_simp+
  from distance_km_is_tagged_total [OF h1 h2 h3 h4, of demo_ops]
  have "get_activity_summary demo_ops ex_activity_session ex_date =
     Inr [(''steps'', JInt 9000), (''distance_km'', JFloat (131/25)), (''floors'', JInt 0),
          (''calories_total'', JInt 0), (''calories_activity'', JInt 0)] \<and>
   u_total_distance demo_ops (JObj ex_summary) = Inr (JFloat (131/25))"
    by (simp only: ev f bindE_Inr)
  with h1 h3 h4 show ?thesis by blast
qed

subsection \<open>Sleep\<close>

lemma u_get_ok:
  "session (BASE @ path) = Inr resp \<Longrightarrow> \<not> (400 \<le> status_code resp \<and> status_code resp < 600) \<Longrightarrow>
   u_get session path = json resp"
  by (auto simp add: u_get_def raise_for_status_def)

lemma find_main_spec:
  "list_all is_dict ss \<Longrightarrow> find_main fops ss = Inr (find (flagged_main fops) ss)"
proof (induction ss)
  case Nil
  show ?case by simp
next
  case (Cons s ss)
  then obtain kvs where s: "s = JObj kvs" by (auto simp: is_dict_iff)
  from Cons have IH: "find_main fops ss = Inr (find (flagged_main fops) ss)" by simp
  have fl: "flagged_main fops (JObj kvs) = truthy fops (dict_get kvs ''isMainSleep'' JNull)"
    by (simp add: flagged_main_def)
  show ?case by (simp add: s IH fl)
qed

lemma stage_minutes_ok:
  "is_dict (dict_get sm st (JObj [])) \<Longrightarrow> \<exists>v. stage_minutes (JObj sm) st = Inr v"
  by (auto simp: stage_minutes_def is_dict_iff)

lemma sleep_row_duration:
  assumes "map_of m ''duration'' = Some dur"
    and "py_truediv fops dur 3600000 = Inr (JFloat q)"
    and "stages_ok m"
  shows "\<exists>row. sleep_row fops (JObj m) = Inr row \<and>
           map_of row ''sleep_duration_hrs'' = Some (JFloat (flt_round fops q 2))"
proof -
  from assms(3) obtain lv sm where lv: "dict_get m ''levels'' (JObj []) = JObj lv"
    and sm: "dict_get lv ''summary'' (JObj []) = JObj sm"
    and st: "is_dict (dict_get sm ''deep'' (JObj []))" "is_dict (dict_get sm ''light'' (JObj []))"
            "is_dict (dict_get sm ''rem'' (JObj []))" "is_dict (dict_get sm ''wake'' (JObj []))"
    by (auto simp: stages_ok_def split: pyval.splits)
  from st obtain a b c e where
    "stage_minutes (JObj sm) ''deep'' = Inr a" "stage_minutes (JObj sm) ''light'' = Inr b"
    "stage_minutes (JObj sm) ''rem'' = Inr c" "stage_minutes (JObj sm) ''wake'' = Inr e"
    using stage_minutes_ok by metis
  moreover have "dict_get m ''duration'' (JInt 0) = dur"
    using assms(1) by (simp add: dict_get_def)
  ultimately show ?thesis
    using assms(2) by (simp add: sleep_row_def lv sm)
qed

text \<open>
  C4. For a sleep response whose \<^verbatim>\<open>sleep\<close> is a list of objects: with an empty list
  \<^verbatim>\<open>sleep_duration_hrs\<close> is the integer 0; otherwise the entry chosen is the first one whose
  \<^verbatim>\<open>isMainSleep\<close> is true, or the first entry when none is flagged, and when that entry has
  a numeric \<^verbatim>\<open>duration\<close> (and its sleep stages are objects, so that nothing raises),
  \<^verbatim>\<open>sleep_duration_hrs\<close> is that duration divided by 3,600,000 and rounded to 2 decimals.
\<close>

theorem sleep_duration_of_main_entry:
  assumes "u_get session (path_sleep d) = Inr (JObj body)"
    and "dict_get body ''sleep'' (JArr []) = JArr ss"
    and "list_all is_dict ss"
  shows "(ss = [] \<longrightarrow>
            (\<exists>row. get_sleep fops session d = Inr row \<and>
                   map_of row ''sleep_duration_hrs'' = Some (JInt 0))) \<and>
         (spec_main_sleep fops ss = Some (JObj m) \<and> map_of m ''duration'' = Some dur \<and>
          py_truediv fops dur 3600000 = Inr (JFloat q) \<and> stages_ok m \<longrightarrow>
            (\<exists>row. get_sleep fops session d = Inr row \<and>
                   map_of row ''sleep_duration_hrs'' = Some (JFloat (flt_round fops q 2))))"
proof (intro conjI impI)
  assume "ss = []"
  then show "\<exists>row. get_sleep fops session d = Inr row \<and>
                   map_of row ''sleep_duration_hrs'' = Some (JInt 0)"
    using assms by (simp add: get_sleep_def sleep_defaults_def)
next
  assume a: "spec_main_sleep fops ss = Some (JObj m) \<and> map_of m ''duration'' = Some dur \<and>
          py_truediv fops dur 3600000 = Inr (JFloat q) \<and> stages_ok m"
  then have ne: "m \<noteq> []" by auto
  from a have row: "\<exists>row. sleep_row fops (JObj m) = Inr row \<and>
           map_of row ''sleep_duration_hrs'' = Some (JFloat (flt_round fops q 2))"
    using sleep_row_duration [of m dur fops q] by simp
  have fm: "find_main fops ss = Inr (find (flagged_main fops) ss)"
    using assms(3) by (rule find_main_spec)
  have "get_sleep fops session d = sleep_row fops (JObj m)"
  proof (cases "find (flagged_main fops) ss")
    case None
    with a obtain rest where "ss = JObj m # rest"
      by (auto simp: spec_main_sleep_def split: list.splits)
    then show ?thesis
      using assms(1,2) fm None ne by (simp add: get_sleep_def)
  next
    case (Some s)
    with a have "s = JObj m" by (simp add: spec_main_sleep_def)
    then show ?thesis
      using assms(1,2) fm Some ne by (simp add: get_sleep_def)
  qed
  with row show "\<exists>row. get_sleep fops session d = Inr row \<and>
                   map_of row ''sleep_duration_hrs'' = Some (JFloat (flt_round fops q 2))"
    by simp
qed

theorem sleep_duration_of_main_entry_witness:
  "u_get ex_sleep_session (path_sleep ex_date) = Inr (JObj [(''sleep'', JArr ex_sleeps)]) \<and>
   list_all is_dict ex_sleeps \<and>
   spec_main_sleep demo_ops ex_sleeps = Some (JObj ex_main) \<and>
   stages_ok ex_main \<and>
   (\<exists>row. get_sleep demo_ops ex_sleep_session ex_date = Inr row \<and>
          map_of row ''sleep_duration_hrs'' = Some (JFloat (15/2)))"
proof -
  have h1: "u_get ex_sleep_session (path_sleep ex_date) = Inr (JObj [(''sleep'', JArr ex_sleeps)])"
    by (simp add: u_get_def ex_sleep_session_def session_of_def raise_for_status_def)
  have h2: "dict_get [(''sleep'', JArr ex_sleeps)] ''sleep'' (JArr []) = JArr ex_sleeps"
    by (simp add: dict_get_def)
  have h3: "list_all is_dict ex_sleeps" by code_simp
  have h4: "spec_main_sleep demo_ops ex_sleeps = Some (JObj ex_main)" by code_simp
  have h5: "map_of ex_main ''duration'' = Some (JInt 27000000)" by code_simp
  have h6: "py_truediv demo_ops (JInt 27000000) 3600000 = Inr (JFloat (15/2))" by code_simp
  have h7: "stages_ok ex_main" by code_simp
  have h8: "flt_round demo_ops (15/2) 2 = 15/2" by code_simp
  show ?thesis
    using sleep_duration_of_main_entry [OF h1 h2 h3, of demo_ops ex_main "JInt 27000000" "15/2"]
      h1 h3 h4 h5 h6 h7 h8 by simp
qed

subsection \<open>VO2 max\<close>

text \<open>
  C5, as amended. With an empty \<^verbatim>\<open>cardioScore\<close> list \<^verbatim>\<open>vo2_max\<close> is the empty string. With a
  first entry whose \<^verbatim>\<open>value\<close> is an object: an absent \<^verbatim>\<open>vo2Max\<close> gives the empty string, a
  range object gives \<^verbatim>\<open>"<low>-<high>"\<close>, and any other value is kept unchanged when it is
  truthy and replaced by the empty string when it is falsy (0, 0.0, false, null, "").
\<close>

theorem vo2_max_rendering:
  assumes "u_get session (path_vo2 d) = Inr (JObj body)"
  shows "(\<not> truthy fops (dict_get body ''cardioScore'' (JArr [])) \<longrightarrow>
            get_vo2_max fops session d = Inr [(''vo2_max'', JStr [])]) \<and>
         (dict_get body ''cardioScore'' (JArr []) = JArr (JObj e # es) \<and>
          dict_get e ''value'' (JObj []) = JObj val \<longrightarrow>
            get_vo2_max fops session d =
              Inr [(''vo2_max'',
                    (case map_of val ''vo2Max'' of
                       None \<Rightarrow> JStr []
                     | Some (JObj r) \<Rightarrow>
                         JStr (py_str fops (dict_get r ''low'' (JStr [])) @ ''-'' @
                               py_str fops (dict_get r ''high'' (JStr [])))
                     | Some v \<Rightarrow> if truthy fops v then v else JStr []))])"
  using assms
  by (auto simp: get_vo2_max_def render_vo2_def dict_get_def split: option.splits pyval.splits)

theorem vo2_max_rendering_witness:
  "get_vo2_max demo_ops ex_vo2_range_session ex_date = Inr [(''vo2_max'', JStr ''42-46'')]"
proof -
  let ?val = "[(''vo2Max'', JObj [(''low'', JInt 42), (''high'', JInt 46)])] :: rat dict"
  let ?e = "[(''value'', JObj ?val)] :: rat dict"
  let ?body = "[(''cardioScore'', JArr [JObj ?e])] :: rat dict"
  have h1: "u_get ex_vo2_range_session (path_vo2 ex_date) = Inr (JObj ?body)"
    by (simp add: u_get_def ex_vo2_range_session_def session_of_def raise_for_status_def)
  have h2: "dict_get ?body ''cardioScore'' (JArr []) = JArr (JObj ?e # [])"
    by (simp add: dict_get_def)
  have h3: "dict_get ?e ''value'' (JObj []) = JObj ?val"
    by (simp add: dict_get_def)
  have ev: "py_str demo_ops (JInt 42) @ ''-'' @ py_str demo_ops (JInt 46) = ''42-46''"
    by code_simp
  show ?thesis
    using vo2_max_rendering [OF h1, of demo_ops ?e "[]" ?val] h2 h3 ev
    by (simp add: dict_get_def)
qed

text \<open>
  C5 as stated fails for the scalar 0: the response carries \<^verbatim>\<open>vo2Max = 0\<close> and the field is
  the empty string, not 0.
\<close>

theorem vo2_max_zero_counterexample:
  "get_vo2_max demo_ops ex_vo2_zero_session ex_date = Inr [(''vo2_max'', JStr [])] \<and>
   get_vo2_max demo_ops ex_vo2_zero_session ex_date \<noteq> Inr [(''vo2_max'', JInt 0)]"
proof -
  have "get_vo2_max demo_ops ex_vo2_zero_session ex_date = Inr [(''vo2_max'', JStr [])]"
    by (simp add: get_vo2_max_def u_get_def ex_vo2_zero_session_def session_of_def
        raise_for_status_def dict_get_def render_vo2_def)
  then show ?thesis by simp
qed

subsection \<open>Exercises\<close>

lemma log_date_dated:
  "dated a \<Longrightarrow> \<exists>s. log_date a = Inr (JStr s) \<and> (s = ds \<longleftrightarrow> on_date ds a)"
  by (auto simp: dated_def on_date_def log_date_def start_of_def dict_get_def
      split: pyval.splits option.splits)

lemma exercise_parts_filter:
  "list_all dated acts \<Longrightarrow>
   map (exercise_part fops) (filter (on_date ds) acts) = map Inr parts \<Longrightarrow>
   exercise_parts fops ds acts = Inr parts"
proof (induction acts arbitrary: parts)
  case Nil
  then show ?case by simp
next
  case (Cons a acts)
  from Cons.prems(1) have da: "dated a" and dl: "list_all dated acts" by simp_all
  from log_date_dated [OF da, of ds] obtain s where
    ld: "log_date a = Inr (JStr s)" and s: "s = ds \<longleftrightarrow> on_date ds a" by blast
  show ?case
  proof (cases "on_date ds a")
    case True
    with Cons.prems(2) obtain p ps where parts: "parts = p # ps"
      and p: "exercise_part fops a = Inr p"
      and ps: "map (exercise_part fops) (filter (on_date ds) acts) = map Inr ps"
      by (cases parts) auto
    from Cons.IH [OF dl ps] have "exercise_parts fops ds acts = Inr ps" .
    with True s ld p parts show ?thesis by simp
  next
    case False
    with Cons.prems(2) have "map (exercise_part fops) (filter (on_date ds) acts) = map Inr parts"
      by simp
    from Cons.IH [OF dl this] have "exercise_parts fops ds acts = Inr parts" .
    with False s ld show ?thesis by simp
  qed
qed

text \<open>
  C10, as amended. For an activities list of dated objects, the \<^verbatim>\<open>exercises\<close> field is built
  from exactly the activities for which the first 10 characters of \<^verbatim>\<open>startDate\<close> (or of
  \<^verbatim>\<open>originalStartTime\<close> when \<^verbatim>\<open>startDate\<close> is absent) equal the target date, in the order
  of the response, joined by \<^verbatim>\<open>"; "\<close>; the others are left out without a message, and when
  none is left the field is the string \<^verbatim>\<open>"None"\<close>.
\<close>

theorem exercises_only_target_date:
  assumes "u_get session (path_exercises d) = Inr (JObj body)"
    and "dict_get body ''activities'' (JArr []) = JArr acts"
    and "list_all dated acts"
    and "map (exercise_part fops) (filter (on_date (date_str d)) acts) = map Inr parts"
  shows "get_exercises fops session d =
           Inr [(''exercises'', JStr (if parts = [] then ''None'' else join ''; '' parts))]"
proof (cases "acts = []")
  case True
  with assms(1,2) show ?thesis
    using assms(4) by (simp add: get_exercises_def)
next
  case False
  have "exercise_parts fops (date_str d) acts = Inr parts"
    using assms(3,4) by (rule exercise_parts_filter)
  with False assms(1,2) show ?thesis
    by (simp add: get_exercises_def)
qed

theorem exercises_only_target_date_witness:
  "list_all dated [JObj ex_run, JObj ex_walk] \<and>
   filter (on_date (date_str ex_date)) [JObj ex_run, JObj ex_walk] = [JObj ex_run] \<and>
   get_exercises demo_ops ex_exercise_session ex_date =
     Inr [(''exercises'', JStr ''Run (30.0min, 250cal)'')]"
proof -
  let ?body = "[(''activities'', JArr [JObj ex_run, JObj ex_walk])] :: rat dict"
  have h1: "u_get ex_exercise_session (path_exercises ex_date) = Inr (JObj ?body)"
    by (simp add: u_get_def ex_exercise_session_def session_of_def raise_for_status_def)
  have h2: "dict_get ?body ''activities'' (JArr []) = JArr [JObj ex_run, JObj ex_walk]"
    by (simp add: dict_get_def)
  have h3: "list_all dated [JObj ex_run, JObj ex_walk]"
    by code_simp
  have f: "filter (on_date (date_str ex_date)) [JObj ex_run, JObj ex_walk] = [JObj ex_run]"
    by code_simp
  have p: "exercise_part demo_ops (JObj ex_run) = Inr ''Run (30.0min, 250cal)''"
    by code_simp
  have h4: "map (exercise_part demo_ops) (filter (on_date (date_str ex_date)) [JObj ex_run, JObj ex_walk])
            = map Inr [''Run (30.0min, 250cal)'']"
    unfolding f by (simp add: p)
  show ?thesis
    using exercises_only_target_date [OF h1 h2 h3 h4] h3 f by simp
qed

text \<open>
  C10 as stated fails: the activity \<open>ex_run\<close> has a \<^verbatim>\<open>startDate\<close> that is not equal to the
  target date (it carries a time after the date), and it is included all the same.
\<close>

theorem exercises_start_date_counterexample:
  "get_exercises demo_ops ex_exercise_session ex_date =
     Inr [(''exercises'', JStr ''Run (30.0min, 250cal)'')] \<and>
   \<not> claimed_on_date (date_str ex_date) ex_run"
proof -
  have a: "get_exercises demo_ops ex_exercise_session ex_date =
     Inr [(''exercises'', JStr ''Run (30.0min, 250cal)'')]"
    by code_simp
  have b: "\<not> claimed_on_date (date_str ex_date) ex_run"
    by code_simp
  from a b show ?thesis by simp
qed

subsection \<open>The aggregate fetch\<close>

lemma bindE_InrE:
  assumes "bindE m f = Inr y"
  obtains v where "m = Inr v" and "f v = Inr y"
  using assms by (cases m) simp_all

lemma update_fresh: "k \<notin> fst ` set al \<Longrightarrow> AList.update k v al = al @ [(k, v)]"
  by (induction al) auto

lemma dict_update_fresh:
  "distinct (map fst m) \<Longrightarrow> fst ` set row \<inter> fst ` set m = {} \<Longrightarrow> dict_update row m = row @ m"
proof (induction m arbitrary: row)
  case Nil
  show ?case by (simp add: dict_update_def)
next
  case (Cons kv m)
  from Cons.prems have fresh: "fst kv \<notin> fst ` set row" by auto
  have step: "dict_update row (kv # m) = dict_update (AList.update (fst kv) (snd kv) row) m"
    by (simp add: dict_update_def)
  have "dict_update (row @ [kv]) m = (row @ [kv]) @ m"
    using Cons.prems by (intro Cons.IH) auto
  with fresh show ?case
    by (simp add: step update_fresh)
qed

lemma get_activity_summary_keys:
  "get_activity_summary fops s d = Inr m \<Longrightarrow> map fst m =
     [''steps'', ''distance_km'', ''floors'', ''calories_total'', ''calories_activity'']"
  by (auto simp: get_activity_summary_def elim!: bindE_InrE)

lemma get_azm_keys:
  "get_azm fops s d = Inr m \<Longrightarrow> map fst m =
     [''azm_fat_burn'', ''azm_cardio'', ''azm_peak'', ''azm_total'']"
  by (auto simp: get_azm_def elim!: bindE_InrE split: if_splits)

lemma sleep_row_keys:
  "sleep_row fops main = Inr m \<Longrightarrow> map fst m =
     [''sleep_start'', ''sleep_end'', ''sleep_duration_hrs'', ''sleep_efficiency'',
      ''sleep_deep_min'', ''sleep_light_min'', ''sleep_rem_min'', ''sleep_wake_min'']"
  by (auto simp: sleep_row_def elim!: bindE_InrE)

lemma get_sleep_keys:
  "get_sleep fops s d = Inr m \<Longrightarrow> map fst m =
     [''sleep_start'', ''sleep_end'', ''sleep_duration_hrs'', ''sleep_efficiency'',
      ''sleep_deep_min'', ''sleep_light_min'', ''sleep_rem_min'', ''sleep_wake_min'']"
  by (auto simp: get_sleep_def sleep_defaults_def
      elim!: bindE_InrE dest: sleep_row_keys split: option.splits if_splits)

lemma get_heart_rate_keys:
  "get_heart_rate fops s d = Inr m \<Longrightarrow> map fst m =
     [''rhr'']"
  by (auto simp: get_heart_rate_def elim!: bindE_InrE split: if_splits)

lemma get_hrv_keys:
  "get_hrv fops s d = Inr m \<Longrightarrow> map fst m =
     [''hrv_rmssd'']"
  by (auto simp: get_hrv_def elim!: bindE_InrE split: if_splits)

lemma get_spo2_keys:
  "get_spo2 fops s d = Inr m \<Longrightarrow> map fst m =
     [''spo2_avg'', ''spo2_min'', ''spo2_max'']"
  by (auto simp: get_spo2_def elim!: bindE_InrE)

lemma get_breathing_rate_keys:
  "get_breathing_rate fops s d = Inr m \<Longrightarrow> map fst m =
     [''breathing_rate'']"
  by (auto simp: get_breathing_rate_def elim!: bindE_InrE split: if_splits)

lemma get_skin_temp_keys:
  "get_skin_temp fops s d = Inr m \<Longrightarrow> map fst m =
     [''skin_temp_variation'']"
  by (auto simp: get_skin_temp_def elim!: bindE_InrE split: if_splits)

lemma get_vo2_max_keys:
  "get_vo2_max fops s d = Inr m \<Longrightarrow> map fst m =
     [''vo2_max'']"
  by (auto simp: get_vo2_max_def elim!: bindE_InrE split: if_splits)

lemma get_exercises_keys:
  "get_exercises fops s d = Inr m \<Longrightarrow> map fst m =
     [''exercises'']"
  by (auto simp: get_exercises_def elim!: bindE_InrE split: if_splits)

lemma less_10_cases:
  "j < 10 \<Longrightarrow> j = 0 \<or> j = 1 \<or> j = 2 \<or> j = 3 \<or> j = 4 \<or> j = 5 \<or> j = 6 \<or> j = 7 \<or> j = 8 \<or> j = (9::nat)"
  by arith

lemma fetchers_keys:
  assumes "j < 10" and "(fetchers ! j) fops s d = Inr m"
  shows "map fst m = fetcher_keys ! j"
  using less_10_cases [OF assms(1)] assms(2)
  by (auto simp: fetchers_def fetcher_keys_def
      dest: get_activity_summary_keys get_azm_keys get_sleep_keys get_heart_rate_keys
        get_hrv_keys get_spo2_keys get_breathing_rate_keys get_skin_temp_keys
        get_vo2_max_keys get_exercises_keys)

lemma length_fetchers: "length fetchers = 10"
  by (simp add: fetchers_def)

lemma length_fetcher_keys: "length fetcher_keys = 10"
  by (simp add: fetcher_keys_def)

lemma distinct_fetcher_keys: "distinct (concat fetcher_keys)"
  by (simp add: fetcher_keys_def)

lemma columns_are_fetcher_keys: "FITBIT_COLUMNS = concat fetcher_keys"
  by (simp add: FITBIT_COLUMNS_def fetcher_keys_def)

text \<open>
  When the fetchers return pairwise different keys, the row is the concatenation of what
  each fetcher contributes: no update overwrites an earlier one.
\<close>

lemma run_fetchers_concat:
  "length fns = length ks \<Longrightarrow>
   (\<forall>j < length fns. \<forall>m. (fns ! j) fops s d = Inr m \<longrightarrow> map fst m = ks ! j) \<Longrightarrow>
   distinct (map fst row @ concat ks) \<Longrightarrow>
   run_fetchers fns fops s d row = row @ concat (map (\<lambda>fn. contribution (fn fops s d)) fns)"
proof (induction fns ks arbitrary: row rule: list_induct2)
  case Nil
  show ?case by simp
next
  case (Cons fn fns k ks)
  have tl: "\<forall>j < length fns. \<forall>m. (fns ! j) fops s d = Inr m \<longrightarrow> map fst m = ks ! j"
    using Cons.prems(1) by fastforce
  show ?case
  proof (cases "fn fops s d")
    case (Inl e)
    have "distinct (map fst row @ concat ks)"
      using Cons.prems(2) by auto
    from Cons.IH [OF tl this] Inl show ?thesis
      by (simp add: contribution_def)
  next
    case (Inr m)
    with Cons.prems(1) have k: "map fst m = k" by fastforce
    have dm: "distinct (map fst m)" and dj: "fst ` set row \<inter> fst ` set m = {}"
      using Cons.prems(2) k [symmetric] by auto
    have up: "dict_update row m = row @ m"
      using dm dj by (rule dict_update_fresh)
    have "distinct (map fst (row @ m) @ concat ks)"
      using Cons.prems(2) k by simp
    from Cons.IH [OF tl this] Inr up show ?thesis
      by (simp add: contribution_def)
  qed
qed

lemma fetch_all_concat:
  "fetch_all fops today (Inr session) (Some d) =
     Inr (concat (map (\<lambda>fn. contribution (fn fops session d)) fetchers))"
proof -
  have "run_fetchers fetchers fops session d [] =
          [] @ concat (map (\<lambda>fn. contribution (fn fops session d)) fetchers)"
    by (rule run_fetchers_concat [where ks = fetcher_keys])
      (auto simp: length_fetchers length_fetcher_keys distinct_fetcher_keys dest: fetchers_keys)
  then show ?thesis by (simp add: fetch_all_def)
qed

lemma get_activity_summary_empty:
  assumes "empty_response s d (path_activity, ''summary'', JObj [])"
  shows "get_activity_summary fops s d =
           Inr [(''steps'', JInt 0), (''distance_km'', JInt 0), (''floors'', JInt 0),
                (''calories_total'', JInt 0), (''calories_activity'', JInt 0)]"
  using assms
  by (auto simp: empty_response_def get_activity_summary_def u_total_distance_def dict_get_def)

lemma get_azm_empty:
  assumes "empty_response s d (path_azm, ''activities-active-zone-minutes'', JArr [])"
  shows "get_azm fops s d =
           Inr [(''azm_fat_burn'', JInt 0), (''azm_cardio'', JInt 0),
                (''azm_peak'', JInt 0), (''azm_total'', JInt 0)]"
  using assms by (auto simp: empty_response_def get_azm_def dict_get_def)

lemma get_sleep_empty:
  assumes "empty_response s d (path_sleep, ''sleep'', JArr [])"
  shows "get_sleep fops s d = Inr sleep_defaults"
  using assms by (auto simp: empty_response_def get_sleep_def dict_get_def)

lemma get_heart_rate_empty:
  assumes "empty_response s d (path_heart, ''activities-heart'', JArr [])"
  shows "get_heart_rate fops s d = Inr [(''rhr'', JStr [])]"
  using assms by (auto simp: empty_response_def get_heart_rate_def dict_get_def)

lemma get_hrv_empty:
  assumes "empty_response s d (path_hrv, ''hrv'', JArr [])"
  shows "get_hrv fops s d = Inr [(''hrv_rmssd'', JStr [])]"
  using assms by (auto simp: empty_response_def get_hrv_def dict_get_def)

lemma get_spo2_empty:
  assumes "empty_response s d (path_spo2, ''value'', JArr [])"
  shows "get_spo2 fops s d =
           Inr [(''spo2_avg'', JStr []), (''spo2_min'', JStr []), (''spo2_max'', JStr [])]"
  using assms by (auto simp: empty_response_def get_spo2_def dict_get_def)

lemma get_breathing_rate_empty:
  assumes "empty_response s d (path_br, ''br'', JArr [])"
  shows "get_breathing_rate fops s d = Inr [(''breathing_rate'', JStr [])]"
  using assms by (auto simp: empty_response_def get_breathing_rate_def dict_get_def)

lemma get_skin_temp_empty:
  assumes "empty_response s d (path_skin, ''tempSkin'', JArr [])"
  shows "get_skin_temp fops s d = Inr [(''skin_temp_variation'', JStr [])]"
  using assms by (auto simp: empty_response_def get_skin_temp_def dict_get_def)

lemma get_vo2_max_empty:
  assumes "empty_response s d (path_vo2, ''cardioScore'', JArr [])"
  shows "get_vo2_max fops s d = Inr [(''vo2_max'', JStr [])]"
  using assms by (auto simp: empty_response_def get_vo2_max_def dict_get_def)

lemma get_exercises_empty:
  assumes "empty_response s d (path_exercises, ''activities'', JArr [])"
  shows "get_exercises fops s d = Inr [(''exercises'', JStr ''None'')]"
  using assms by (auto simp: empty_response_def get_exercises_def dict_get_def)

text \<open>
  C1, as amended. For every date, when each of the ten endpoints answers with \<^verbatim>\<open>{}\<close> or with
  the object that binds the endpoint's key to an empty list (to an empty object for the
  activity summary), \<^verbatim>\<open>fetch_all\<close> returns the row of defaults: 0 for the numeric activity,
  AZM and sleep fields, the empty string for \<^verbatim>\<open>rhr\<close>, \<^verbatim>\<open>hrv_rmssd\<close>, the three SpO2 fields,
  \<^verbatim>\<open>breathing_rate\<close>, \<^verbatim>\<open>skin_temp_variation\<close>, \<^verbatim>\<open>vo2_max\<close>, \<^verbatim>\<open>sleep_start\<close> and
  \<^verbatim>\<open>sleep_end\<close>, and the string \<^verbatim>\<open>"None"\<close> for \<^verbatim>\<open>exercises\<close>. Its keys are the 26 columns
  of the sheet.
\<close>

theorem fetch_all_empty_bodies:
  assumes "\<forall>ep \<in> set endpoints. empty_response session d ep"
  shows "fetch_all fops today (Inr session) (Some d) = Inr default_row \<and>
         map fst (default_row :: 'f dict) = FITBIT_COLUMNS"
proof
  have r: "get_activity_summary fops session d =
             Inr [(''steps'', JInt 0), (''distance_km'', JInt 0), (''floors'', JInt 0),
                  (''calories_total'', JInt 0), (''calories_activity'', JInt 0)]"
    "get_azm fops session d =
             Inr [(''azm_fat_burn'', JInt 0), (''azm_cardio'', JInt 0),
                  (''azm_peak'', JInt 0), (''azm_total'', JInt 0)]"
    "get_sleep fops session d = Inr sleep_defaults"
    "get_heart_rate fops session d = Inr [(''rhr'', JStr [])]"
    "get_hrv fops session d = Inr [(''hrv_rmssd'', JStr [])]"
    "get_spo2 fops session d =
             Inr [(''spo2_avg'', JStr []), (''spo2_min'', JStr []), (''spo2_max'', JStr [])]"
    "get_breathing_rate fops session d = Inr [(''breathing_rate'', JStr [])]"
    "get_skin_temp fops session d = Inr [(''skin_temp_variation'', JStr [])]"
    "get_vo2_max fops session d = Inr [(''vo2_max'', JStr [])]"
    "get_exercises fops session d = Inr [(''exercises'', JStr ''None'')]"
    using assms
    by (simp_all add: endpoints_def get_activity_summary_empty get_azm_empty get_sleep_empty
        get_heart_rate_empty get_hrv_empty get_spo2_empty get_breathing_rate_empty
        get_skin_temp_empty get_vo2_max_empty get_exercises_empty)
  show "fetch_all fops today (Inr session) (Some d) = Inr default_row"
    by (simp add: fetch_all_concat fetchers_def r contribution_def sleep_defaults_def
        default_row_def)
  show "map fst (default_row :: 'f dict) = FITBIT_COLUMNS"
    by (simp add: default_row_def FITBIT_COLUMNS_def)
qed

theorem fetch_all_empty_bodies_witness:
  "list_all (empty_response ex_empty_session ex_date) endpoints \<and>
   fetch_all demo_ops ex_date (Inr ex_empty_session) (Some ex_date) = Inr default_row"
proof -
  have h: "\<forall>ep \<in> set endpoints. empty_response ex_empty_session ex_date ep"
    by (simp add: endpoints_def empty_response_def u_get_def ex_empty_session_def
        raise_for_status_def)
  from fetch_all_empty_bodies [OF h, of demo_ops ex_date]
  have "fetch_all demo_ops ex_date (Inr ex_empty_session) (Some ex_date) = Inr default_row"
    by (rule conjunct1)
  with h show ?thesis by (simp add: list_all_iff)
qed

text \<open>
  C1 as stated fails for a body that is itself an empty list: \<^verbatim>\<open>data.get\<close> raises
  \<^verbatim>\<open>AttributeError\<close> on a list, the fetcher is skipped and its keys are missing. With \<^verbatim>\<open>[]\<close>
  from every endpoint the row is empty; with \<^verbatim>\<open>[]\<close> from the SpO2 endpoint alone and \<^verbatim>\<open>{}\<close>
  from the others, the three SpO2 keys are missing.
\<close>

theorem fetch_all_empty_list_body_counterexample:
  "fetch_all demo_ops ex_date (Inr ex_list_body_session) (Some ex_date) = Inr [] \<and>
   get_spo2 demo_ops ex_spo2_list_session ex_date = Inl AttributeError \<and>
   fetch_all demo_ops ex_date (Inr ex_spo2_list_session) (Some ex_date) =
     Inr (filter (\<lambda>kv. fst kv \<notin> {''spo2_avg'', ''spo2_min'', ''spo2_max''}) default_row)"
proof -
  have a: "fetch_all demo_ops ex_date (Inr ex_list_body_session) (Some ex_date) = Inr []"
    by code_simp
  have b: "get_spo2 demo_ops ex_spo2_list_session ex_date = Inl AttributeError"
    by code_simp
  have c: "fetch_all demo_ops ex_date (Inr ex_spo2_list_session) (Some ex_date) =
     Inr (filter (\<lambda>kv. fst kv \<notin> {''spo2_avg'', ''spo2_min'', ''spo2_max''}) default_row)"
    by code_simp
  from a b c show ?thesis by simp
qed

text \<open>
  Leaving one group of keys out of a list of pairwise different groups: the rest is still
  without repetition and holds exactly the keys outside that group.
\<close>

lemma concat_without_group:
  "length xs = length ks \<Longrightarrow> i < length ks \<Longrightarrow> xs ! i = [] \<Longrightarrow>
   (\<forall>j < length ks. j \<noteq> i \<longrightarrow> xs ! j = ks ! j) \<Longrightarrow> distinct (concat ks) \<Longrightarrow>
   distinct (concat xs) \<and> set (concat xs) = set (concat ks) - set (ks ! i)"
proof (induction xs ks arbitrary: i rule: list_induct2)
  case Nil
  then show ?case by simp
next
  case (Cons x xs k ks)
  from Cons.prems(4) have dk: "distinct k" and dks: "distinct (concat ks)"
    and disj: "set k \<inter> set (concat ks) = {}" by auto
  show ?case
  proof (cases i)
    case 0
    with Cons.prems(2) have x: "x = []" by simp
    have "xs = ks"
    proof (rule nth_equalityI)
      show "length xs = length ks" by (rule Cons.hyps)
    next
      fix j assume "j < length xs"
      with Cons.prems(3) [rule_format, of "Suc j"] 0 Cons.hyps show "xs ! j = ks ! j" by simp
    qed
    with x 0 dks disj show ?thesis by auto
  next
    case (Suc i')
    with Cons.prems(3) [rule_format, of 0] have x: "x = k" by simp
    have i': "i' < length ks" using Cons.prems(1) Suc by simp
    have e: "xs ! i' = []" using Cons.prems(2) Suc by simp
    have r: "\<forall>j < length ks. j \<noteq> i' \<longrightarrow> xs ! j = ks ! j"
    proof (intro allI impI)
      fix j assume "j < length ks" "j \<noteq> i'"
      with Cons.prems(3) [rule_format, of "Suc j"] Suc show "xs ! j = ks ! j" by simp
    qed
    from Cons.IH [OF i' e r dks] have IH1: "distinct (concat xs)"
      and IH2: "set (concat xs) = set (concat ks) - set (ks ! i')" by simp_all
    have sub: "set (ks ! i') \<subseteq> set (concat ks)"
      using i' by (auto intro!: bexI [of _ "ks ! i'"])
    from x Suc dk disj IH1 IH2 sub show ?thesis by auto
  qed
qed

text \<open>
  C2. When one fetcher raises an exception and the nine others return, \<^verbatim>\<open>fetch_all\<close>
  returns a row; the row holds every pair each of the nine others returned, each key once,
  and its keys are the 26 columns without the keys of the fetcher that raised.
\<close>

theorem fetch_all_partial_failure:
  assumes "i < 10"
    and "(fetchers ! i) fops session d = Inl e"
    and "\<forall>j < 10. j \<noteq> i \<longrightarrow> (\<exists>m. (fetchers ! j) fops session d = Inr m)"
  shows "\<exists>row. fetch_all fops today (Inr session) (Some d) = Inr row \<and>
           distinct (map fst row) \<and>
           (\<forall>j < 10. j \<noteq> i \<longrightarrow>
              (\<forall>m. (fetchers ! j) fops session d = Inr m \<longrightarrow> set m \<subseteq> set row)) \<and>
           fst ` set row = set FITBIT_COLUMNS - set (fetcher_keys ! i)"
proof -
  define c where "c = (\<lambda>fn :: 'a fetcher. contribution (fn fops session d))"
  define row where "row = concat (map c fetchers)"
  define xs where "xs = map (\<lambda>fn. map fst (c fn)) fetchers"
  have fa: "fetch_all fops today (Inr session) (Some d) = Inr row"
    by (simp add: fetch_all_concat row_def c_def)
  have keys: "map fst row = concat xs"
    by (simp add: row_def xs_def map_concat comp_def)
  have len: "length xs = length fetcher_keys"
    by (simp add: xs_def length_fetchers length_fetcher_keys)
  have i: "i < length fetcher_keys"
    using assms(1) by (simp add: length_fetcher_keys)
  have xi: "xs ! i = []"
    using assms(1,2) by (simp add: xs_def c_def contribution_def length_fetchers)
  have xj: "\<forall>j < length fetcher_keys. j \<noteq> i \<longrightarrow> xs ! j = fetcher_keys ! j"
  proof (intro allI impI)
    fix j assume j: "j < length fetcher_keys" and ne: "j \<noteq> i"
    then have j10: "j < 10" by (simp add: length_fetcher_keys)
    with ne assms(3) obtain m where m: "(fetchers ! j) fops session d = Inr m" by blast
    from fetchers_keys [OF j10 m] m j10 show "xs ! j = fetcher_keys ! j"
      by (simp add: xs_def c_def contribution_def length_fetchers)
  qed
  from concat_without_group [OF len i xi xj distinct_fetcher_keys]
  have d: "distinct (concat xs)"
    and s: "set (concat xs) = set (concat fetcher_keys) - set (fetcher_keys ! i)" by simp_all
  have others: "\<forall>j < 10. j \<noteq> i \<longrightarrow>
              (\<forall>m. (fetchers ! j) fops session d = Inr m \<longrightarrow> set m \<subseteq> set row)"
  proof (intro allI impI)
    fix j m assume j: "j < 10" and m: "(fetchers ! j) fops session d = Inr m"
    have "fetchers ! j \<in> set (fetchers :: 'a fetcher list)"
      using j by (simp add: length_fetchers)
    moreover have "c (fetchers ! j) = m"
      using m by (simp add: c_def contribution_def)
    ultimately show "set m \<subseteq> set row"
      by (auto simp: row_def)
  qed
  have "fst ` set row = set (map fst row)" by simp
  also have "\<dots> = set FITBIT_COLUMNS - set (fetcher_keys ! i)"
    using s by (simp only: keys columns_are_fetcher_keys)
  finally have ks: "fst ` set row = set FITBIT_COLUMNS - set (fetcher_keys ! i)" .
  from fa d others ks show ?thesis
    by (auto simp: keys)
qed

theorem fetch_all_partial_failure_witness:
  "(fetchers ! 3) demo_ops ex_heart_down_session ex_date = Inl (HTTPError 503) \<and>
   list_all (\<lambda>j. \<exists>m. (fetchers ! j) demo_ops ex_heart_down_session ex_date = Inr m)
     [0, 1, 2, 4, 5, 6, 7, 8, 9] \<and>
   (\<exists>row. fetch_all demo_ops ex_date (Inr ex_heart_down_session) (Some ex_date) = Inr row \<and>
          fst ` set row = set FITBIT_COLUMNS - {''rhr''})"
proof -
  have ne: "\<And>p. p \<noteq> path_heart ex_date \<Longrightarrow>
              u_get ex_heart_down_session p = Inr (JObj [])"
    by (simp add: u_get_def ex_heart_down_session_def BASE_def raise_for_status_def)
  have paths: "path_activity ex_date \<noteq> path_heart ex_date" "path_azm ex_date \<noteq> path_heart ex_date"
    "path_sleep ex_date \<noteq> path_heart ex_date" "path_hrv ex_date \<noteq> path_heart ex_date"
    "path_spo2 ex_date \<noteq> path_heart ex_date" "path_br ex_date \<noteq> path_heart ex_date"
    "path_skin ex_date \<noteq> path_heart ex_date" "path_vo2 ex_date \<noteq> path_heart ex_date"
    "path_exercises ex_date \<noteq> path_heart ex_date"
    by (simp_all add: path_activity_def path_azm_def path_sleep_def path_hrv_def path_spo2_def
        path_br_def path_skin_def path_vo2_def path_exercises_def path_heart_def)
  have h2: "(fetchers ! 3) demo_ops ex_heart_down_session ex_date = Inl (HTTPError 503)"
    by (simp add: fetchers_def get_heart_rate_def u_get_def ex_heart_down_session_def
        raise_for_status_def)
  have h3: "\<forall>j < 10. j \<noteq> 3 \<longrightarrow> (\<exists>m. (fetchers ! j) demo_ops ex_heart_down_session ex_date = Inr m)"
  proof (intro allI impI)
    fix j :: nat assume "j < 10" "j \<noteq> 3"
    with less_10_cases [of j] show "\<exists>m. (fetchers ! j) demo_ops ex_heart_down_session ex_date = Inr m"
      by (auto simp: fetchers_def empty_response_def ne paths
          get_activity_summary_empty get_azm_empty get_sleep_empty get_hrv_empty get_spo2_empty
          get_breathing_rate_empty get_skin_temp_empty get_vo2_max_empty get_exercises_empty)
  qed
  have k: "fetcher_keys ! 3 = [''rhr'']"
    by (simp add: fetcher_keys_def)
  have h4: "list_all (\<lambda>j. \<exists>m. (fetchers ! j) demo_ops ex_heart_down_session ex_date = Inr m)
     [0, 1, 2, 4, 5, 6, 7, 8, 9]"
    using h3 by simp
  have "\<exists>row. fetch_all demo_ops ex_date (Inr ex_heart_down_session) (Some ex_date) = Inr row \<and>
          fst ` set row = set FITBIT_COLUMNS - {''rhr''}"
    using fetch_all_partial_failure [OF _ h2 h3, of ex_date] k by auto
  with h2 h4 show ?thesis by blast
qed

subsection \<open>Blood pressure arguments\<close>










subsection \<open>The HTTP trigger\<close>

text \<open>
  C7 fails on a key with a character outside ASCII: \<^verbatim>\<open>hmac.compare_digest\<close> raises
  \<^verbatim>\<open>TypeError\<close>, which \<^verbatim>\<open>do_GET\<close> does not catch, so the handler ends with the exception and
  sends no response at all, neither 403 nor another status. (Nothing is fetched or
  written either.)
\<close>

theorem do_GET_non_ascii_key_raises:
  "do_GET env ex_non_ascii_request w = (Inl (Exception TypeError), w)"
  by (simp add: do_GET_def ex_non_ascii_request_def first_param_def compare_digest_def
      is_ascii_def)

text \<open>
  What does hold: a request to \<^verbatim>\<open>/fetch\<close> without a key, or with an ASCII key that differs
  from an ASCII configured key, is answered with 403 and nothing else happens.
\<close>

lemma do_GET_rejects_wrong_key:
  assumes "req_path req = ''/fetch''"
    and "map_of (req_params req) ''key'' = None \<or>
         (\<exists>k ks. map_of (req_params req) ''key'' = Some (k # ks) \<and> k \<noteq> API_KEY env \<and>
                 is_ascii k \<and> is_ascii (API_KEY env))"
  shows "do_GET env req w =
           (Inr (), w\<lparr>responses := responses w @ [(403, ''Forbidden: invalid or missing API key.'')]\<rparr>)"
  using assms
  by (auto simp: do_GET_def first_param_def compare_digest_def u_respond_def)

subsection \<open>Appending rows\<close>

lemma append_rows_ok:
  "\<forall>j < length rows. append_outcome env (length (attempts w) + j) = None \<Longrightarrow>
   append_rows env ws rows w =
     (Inr (), w\<lparr>attempts := attempts w @ map (Pair ws) rows,
                committed := committed w @ map (Pair ws) rows\<rparr>)"
proof (induction rows arbitrary: w)
  case Nil
  show ?case by simp
next
  case (Cons row rows)
  from Cons.prems have first: "append_outcome env (length (attempts w)) = None"
    by fastforce
  define w1 where "w1 = w\<lparr>attempts := attempts w @ [(ws, row)],
                           committed := committed w @ [(ws, row)]\<rparr>"
  have step: "append_row env ws row w = (Inr (), w1)"
    by (simp add: append_row_def first w1_def)
  have "\<forall>j < length rows. append_outcome env (length (attempts w1) + j) = None"
  proof (intro allI impI)
    fix j assume "j < length rows"
    with Cons.prems [rule_format, of "Suc j"] show "append_outcome env (length (attempts w1) + j) = None"
      by (simp add: w1_def)
  qed
  from Cons.IH [OF this] step show ?case
    by (simp add: w1_def)
qed

lemma append_rows_fail:
  "k < length rows \<Longrightarrow>
   \<forall>j < k. append_outcome env (length (attempts w) + j) = None \<Longrightarrow>
   append_outcome env (length (attempts w) + k) = Some x \<Longrightarrow>
   append_rows env ws rows w =
     (Inl (Exception x), w\<lparr>attempts := attempts w @ map (Pair ws) (take (Suc k) rows),
                              committed := committed w @ map (Pair ws) (take k rows)\<rparr>)"
proof (induction rows arbitrary: w k)
  case Nil
  then show ?case by simp
next
  case (Cons row rows)
  show ?case
  proof (cases k)
    case 0
    with Cons.prems(3) show ?thesis
      by (simp add: append_row_def)
  next
    case (Suc k')
    from Cons.prems(2) Suc have first: "append_outcome env (length (attempts w)) = None"
      by fastforce
    define w1 where "w1 = w\<lparr>attempts := attempts w @ [(ws, row)],
                             committed := committed w @ [(ws, row)]\<rparr>"
    have step: "append_row env ws row w = (Inr (), w1)"
      by (simp add: append_row_def first w1_def)
    have a: "k' < length rows" using Cons.prems(1) Suc by simp
    have b: "\<forall>j < k'. append_outcome env (length (attempts w1) + j) = None"
    proof (intro allI impI)
      fix j assume "j < k'"
      with Cons.prems(2) [rule_format, of "Suc j"] Suc
      show "append_outcome env (length (attempts w1) + j) = None"
        by (simp add: w1_def)
    qed
    have c: "append_outcome env (length (attempts w1) + k') = Some x"
      using Cons.prems(3) Suc by (simp add: w1_def)
    from Cons.IH [OF a b c] step Suc show ?thesis
      by (simp add: w1_def)
  qed
qed

lemma bp_rows_nth:
  "j < length readings \<Longrightarrow> bp_rows ts readings ! j = bp_row ts j (readings ! j)"
  by (simp add: bp_rows_def bp_row_def nth_enumerate_eq)

lemma length_bp_rows: "length (bp_rows ts readings) = length readings"
  by (simp add: bp_rows_def)

text \<open>
  C8. When the sheet opens and no append is refused, \<^verbatim>\<open>append_bp\<close> on \<open>N\<close> readings reads
  the clock once and makes exactly \<open>N\<close> calls of \<^verbatim>\<open>append_row\<close> on the Blood Pressure tab,
  one per reading and in their order; the call for the reading at position \<open>j\<close> (from 0)
  carries that one timestamp and the index \<open>j + 1\<close>.
\<close>

theorem append_bp_one_row_per_reading:
  assumes "open_sheet env = None"
    and "find_worksheet env ''Blood Pressure'' = None"
    and "\<forall>j < length readings. append_outcome env (length (attempts w) + j) = None"
  shows "\<exists>w'. append_bp env readings w = (Inr (), w') \<and>
           clock_reads w' = Suc (clock_reads w) \<and>
           length (attempts w') = length (attempts w) + length readings \<and>
           take (length (attempts w)) (attempts w') = attempts w \<and>
           (\<forall>j < length readings.
              attempts w' ! (length (attempts w) + j) =
                (''Blood Pressure'', bp_row (clock env (clock_reads w)) j (readings ! j)))"
proof -
  define ts where "ts = clock env (clock_reads w)"
  define w1 where "w1 = w\<lparr>clock_reads := Suc (clock_reads w)\<rparr>"
  have ok: "\<forall>j < length (bp_rows ts readings). append_outcome env (length (attempts w1) + j) = None"
    using assms(3) by (simp add: length_bp_rows w1_def)
  have "append_bp env readings w = append_rows env ''Blood Pressure'' (bp_rows ts readings) w1"
    using assms(1,2) by (simp add: append_bp_def open_worksheet_def u_timestamp_def ts_def w1_def)
  also note append_rows_ok [OF ok]
  finally have r: "append_bp env readings w =
     (Inr (), w1\<lparr>attempts := attempts w1 @ map (Pair ''Blood Pressure'') (bp_rows ts readings),
                 committed := committed w1 @ map (Pair ''Blood Pressure'') (bp_rows ts readings)\<rparr>)" .
  show ?thesis
    unfolding r
    by (simp add: w1_def length_bp_rows nth_append bp_rows_nth ts_def)
qed

theorem append_bp_one_row_per_reading_witness:
  "list_all (\<lambda>j. append_outcome ex_env (length (attempts ex_world) + j) = None)
     [0..<length ex_readings] \<and>
   (\<exists>w'. append_bp ex_env ex_readings ex_world = (Inr (), w') \<and>
         clock_reads w' = 1 \<and> length (attempts w') = 3 \<and>
         attempts w' ! 1 =
           (''Blood Pressure'',
            [JStr ''2024-03-09 08:00:00'', JInt 2, JInt 118, JInt 78, JStr [], JStr []]))"
proof -
  have h1: "open_sheet ex_env = None" by (simp add: ex_env_def)
  have h2: "find_worksheet ex_env ''Blood Pressure'' = None" by (simp add: ex_env_def)
  have h3: "\<forall>j < length ex_readings. append_outcome ex_env (length (attempts ex_world) + j) = None"
    by (simp add: ex_env_def)
  have l: "length ex_readings = 3" by (simp add: ex_readings_def)
  have a: "length (attempts ex_world) = 0" "clock_reads ex_world = 0"
    by (simp_all add: ex_world_def)
  have c: "clock ex_env 0 = ''2024-03-09 08:00:00''" by code_simp
  have r: "bp_row ''2024-03-09 08:00:00'' (Suc 0) (ex_readings ! Suc 0) =
             [JStr ''2024-03-09 08:00:00'', JInt 2, JInt 118, JInt 78, JStr [], JStr []]"
    by code_simp
  from append_bp_one_row_per_reading [OF h1 h2 h3] obtain w' where
    w': "append_bp ex_env ex_readings ex_world = (Inr (), w')"
      "clock_reads w' = Suc (clock_reads ex_world)"
      "length (attempts w') = length (attempts ex_world) + length ex_readings"
      "\<forall>j < length ex_readings.
              attempts w' ! (length (attempts ex_world) + j) =
                (''Blood Pressure'', bp_row (clock ex_env (clock_reads ex_world)) j (ex_readings ! j))"
    by blast
  from w'(4) [rule_format, of 1] have "attempts w' ! 1 =
     (''Blood Pressure'', [JStr ''2024-03-09 08:00:00'', JInt 2, JInt 118, JInt 78, JStr [], JStr []])"
    by (simp add: l a c r)
  with w'(1,2,3) h3 show ?thesis
    by (simp add: l a list_all_iff)
qed

text \<open>
  C9. In \<^verbatim>\<open>append_bp\<close> and in \<^verbatim>\<open>append_diet\<close>, when the appends before position \<open>k\<close> (from
  0) succeed and the one at position \<open>k\<close> raises, the call ends with that exception; the
  sheet has gained the first \<open>k\<close> rows and no other; and the calls of \<^verbatim>\<open>append_row\<close> made are
  the first \<open>k + 1\<close> rows, each once: the failed append is not repeated and the rows behind
  it are not attempted.
\<close>

theorem append_failure_keeps_earlier_rows:
  assumes "open_sheet env = None"
    and "find_worksheet env ''Blood Pressure'' = None"
    and "find_worksheet env ''Diet'' = None"
    and "\<forall>j < k. append_outcome env (length (attempts w) + j) = None"
    and "append_outcome env (length (attempts w) + k) = Some x"
  shows "(k < length readings \<longrightarrow>
            (\<exists>w'. append_bp env readings w = (Inl (Exception x), w') \<and>
                  committed w' = committed w @
                    map (Pair ''Blood Pressure'') (take k (bp_rows (clock env (clock_reads w)) readings)) \<and>
                  attempts w' = attempts w @
                    map (Pair ''Blood Pressure'') (take (Suc k) (bp_rows (clock env (clock_reads w)) readings)))) \<and>
         (k < length items \<longrightarrow>
            (\<exists>w'. append_diet env meal items w = (Inl (Exception x), w') \<and>
                  committed w' = committed w @
                    map (Pair ''Diet'') (take k (diet_rows (clock env (clock_reads w)) meal items)) \<and>
                  attempts w' = attempts w @
                    map (Pair ''Diet'') (take (Suc k) (diet_rows (clock env (clock_reads w)) meal items))))"
proof (intro conjI impI)
  define ts where "ts = clock env (clock_reads w)"
  define w1 where "w1 = w\<lparr>clock_reads := Suc (clock_reads w)\<rparr>"
  have b: "\<forall>j < k. append_outcome env (length (attempts w1) + j) = None"
    using assms(4) by (simp add: w1_def)
  have c: "append_outcome env (length (attempts w1) + k) = Some x"
    using assms(5) by (simp add: w1_def)
  {
    assume "k < length readings"
    then have a: "k < length (bp_rows ts readings)" by (simp add: length_bp_rows)
    have "append_bp env readings w = append_rows env ''Blood Pressure'' (bp_rows ts readings) w1"
      using assms(1,2) by (simp add: append_bp_def open_worksheet_def u_timestamp_def ts_def w1_def)
    with append_rows_fail [OF a b c, of "''Blood Pressure''"]
    show "\<exists>w'. append_bp env readings w = (Inl (Exception x), w') \<and>
                  committed w' = committed w @
                    map (Pair ''Blood Pressure'') (take k (bp_rows (clock env (clock_reads w)) readings)) \<and>
                  attempts w' = attempts w @
                    map (Pair ''Blood Pressure'') (take (Suc k) (bp_rows (clock env (clock_reads w)) readings))"
      by (simp add: w1_def ts_def)
  }
  {
    assume "k < length items"
    then have a: "k < length (diet_rows ts meal items)" by (simp add: diet_rows_def)
    have "append_diet env meal items w = append_rows env ''Diet'' (diet_rows ts meal items) w1"
      using assms(1,3) by (simp add: append_diet_def open_worksheet_def u_timestamp_def ts_def w1_def)
    with append_rows_fail [OF a b c, of "''Diet''"]
    show "\<exists>w'. append_diet env meal items w = (Inl (Exception x), w') \<and>
                  committed w' = committed w @
                    map (Pair ''Diet'') (take k (diet_rows (clock env (clock_reads w)) meal items)) \<and>
                  attempts w' = attempts w @
                    map (Pair ''Diet'') (take (Suc k) (diet_rows (clock env (clock_reads w)) meal items))"
      by (simp add: w1_def ts_def)
  }
qed

theorem append_failure_keeps_earlier_rows_witness:
  "append_outcome ex_env_failing (length (attempts ex_world) + 0) = None \<and>
   append_outcome ex_env_failing (length (attempts ex_world) + 1) = Some APIError \<and>
   (\<exists>w'. append_bp ex_env_failing ex_readings ex_world = (Inl (Exception APIError), w') \<and>
         length (committed w') = 1 \<and> length (attempts w') = 2) \<and>
   (\<exists>w'. append_diet ex_env_failing ''lunch'' ex_items ex_world = (Inl (Exception APIError), w') \<and>
         length (committed w') = 1 \<and> length (attempts w') = 2)"
proof -
  have h1: "open_sheet ex_env_failing = None"
    and h2: "find_worksheet ex_env_failing ''Blood Pressure'' = None"
    and h3: "find_worksheet ex_env_failing ''Diet'' = None"
    by (simp_all add: ex_env_failing_def ex_env_def)
  have h4: "\<forall>j < 1. append_outcome ex_env_failing (length (attempts ex_world) + j) = None"
    by (simp add: ex_env_failing_def ex_env_def ex_world_def)
  have h5: "append_outcome ex_env_failing (length (attempts ex_world) + 1) = Some APIError"
    by (simp add: ex_env_failing_def ex_env_def ex_world_def)
  have l: "length ex_readings = 3" "length ex_items = 2"
    by (simp_all add: ex_readings_def ex_items_def)
  have a: "attempts ex_world = []" "committed ex_world = []"
    by (simp_all add: ex_world_def)
  from append_failure_keeps_earlier_rows [OF h1 h2 h3 h4 h5, of ex_readings ex_items "''lunch''"]
  show ?thesis
    using h4 h5 by (auto simp: l a length_bp_rows diet_rows_def)
qed

end
